theory Spec2Isabelle
  imports Main "HOL-Library.List_Lexorder" "HOL-Library.Multiset"
begin

section \<open>Python values and exceptions\<close>

text \<open>
  The scripts pass around what \<open>json.loads\<close> and \<open>response.json()\<close> return: \<open>None\<close>,
  booleans, numbers, strings, lists and dicts. \<open>JNull\<close> is Python's \<open>None\<close>. A dict keeps
  its insertion order and is an association list, looked up with \<open>map_of\<close>; the decoder
  leaves no key twice. Numbers are integers here; no claim reads a float.
\<close>

datatype json =
    JNull
  | JBool bool
  | JNum int
  | JStr string
  | JArr "json list"
  | JObj "(string \<times> json) list"

text \<open>
  The exceptions that occur: \<open>InvalidVersion\<close> from the version parser, \<open>KeyError\<close>,
  \<open>TypeError\<close> and \<open>AttributeError\<close> from reading a value of the wrong shape, and
  \<open>FileNotFoundError\<close> from starting a program that is not installed.
\<close>

datatype py_error =
    InvalidVersion
  | KeyError
  | TypeError
  | AttributeError
  | FileNotFoundError

text \<open>Truthiness, as \<open>if data\<close> and \<open>x or y\<close> test it.\<close>

fun py_truthy :: "json \<Rightarrow> bool" where
  "py_truthy JNull = False"
| "py_truthy (JBool b) = b"
| "py_truthy (JNum n) = (n \<noteq> 0)"
| "py_truthy (JStr s) = (s \<noteq> [])"
| "py_truthy (JArr xs) = (xs \<noteq> [])"
| "py_truthy (JObj kvs) = (kvs \<noteq> [])"

definition py_or :: "json \<Rightarrow> json \<Rightarrow> json" where
  "py_or a b = (if py_truthy a then a else b)"

fun starts_with :: "string \<Rightarrow> string \<Rightarrow> bool" where
  "starts_with [] s = True"
| "starts_with (p # ps) [] = False"
| "starts_with (p # ps) (c # cs) = (p = c \<and> starts_with ps cs)"

fun substring :: "string \<Rightarrow> string \<Rightarrow> bool" where
  "substring p [] = (p = [])"
| "substring p (c # cs) = (starts_with p (c # cs) \<or> substring p cs)"

text \<open>
  \<open>k in data\<close> for a string \<open>k\<close>: key membership in a dict, element membership in a
  list, substring test in a string, \<open>TypeError\<close> otherwise.
\<close>

fun py_contains :: "string \<Rightarrow> json \<Rightarrow> py_error + bool" where
  "py_contains k (JObj kvs) = Inr (k \<in> set (map fst kvs))"
| "py_contains k (JArr xs) = Inr (JStr k \<in> set xs)"
| "py_contains k (JStr s) = Inr (substring k s)"
| "py_contains k JNull = Inl TypeError"
| "py_contains k (JBool b) = Inl TypeError"
| "py_contains k (JNum n) = Inl TypeError"

text \<open>\<open>data[k]\<close> for a string \<open>k\<close>: only a dict can be subscripted by a string.\<close>

fun py_getitem :: "json \<Rightarrow> string \<Rightarrow> py_error + json" where
  "py_getitem (JObj kvs) k = (case map_of kvs k of None \<Rightarrow> Inl KeyError | Some v \<Rightarrow> Inr v)"
| "py_getitem (JArr xs) k = Inl TypeError"
| "py_getitem (JStr s) k = Inl TypeError"
| "py_getitem JNull k = Inl TypeError"
| "py_getitem (JBool b) k = Inl TypeError"
| "py_getitem (JNum n) k = Inl TypeError"

text \<open>\<open>data.get(k, default)\<close>: only a dict has the method.\<close>

fun py_get :: "json \<Rightarrow> string \<Rightarrow> json \<Rightarrow> py_error + json" where
  "py_get (JObj kvs) k dflt = (case map_of kvs k of None \<Rightarrow> Inr dflt | Some v \<Rightarrow> Inr v)"
| "py_get (JArr xs) k dflt = Inl AttributeError"
| "py_get (JStr s) k dflt = Inl AttributeError"
| "py_get JNull k dflt = Inl AttributeError"
| "py_get (JBool b) k dflt = Inl AttributeError"
| "py_get (JNum n) k dflt = Inl AttributeError"

text \<open>\<open>x > k\<close> for an integer \<open>k\<close>: a bool counts as 0 or 1, other types do not compare.\<close>

fun py_gt :: "json \<Rightarrow> int \<Rightarrow> py_error + bool" where
  "py_gt (JNum n) k = Inr (n > k)"
| "py_gt (JBool b) k = Inr ((if b then 1 else 0) > k)"
| "py_gt JNull k = Inl TypeError"
| "py_gt (JStr s) k = Inl TypeError"
| "py_gt (JArr xs) k = Inl TypeError"
| "py_gt (JObj kvs) k = Inl TypeError"

text \<open>\<open>for x in data\<close>: the elements of a list, the characters of a string, the keys of a dict.\<close>

fun py_iter :: "json \<Rightarrow> py_error + json list" where
  "py_iter (JArr xs) = Inr xs"
| "py_iter (JStr s) = Inr (map (\<lambda>c. JStr [c]) s)"
| "py_iter (JObj kvs) = Inr (map (\<lambda>kv. JStr (fst kv)) kvs)"
| "py_iter JNull = Inl TypeError"
| "py_iter (JBool b) = Inl TypeError"
| "py_iter (JNum n) = Inl TypeError"

text \<open>\<open>s.lstrip(ch)\<close> for a one-character argument removes every leading \<open>ch\<close>.\<close>

definition lstrip :: "char \<Rightarrow> string \<Rightarrow> string" where
  "lstrip ch s = dropWhile (\<lambda>c. c = ch) s"

fun py_lstrip_v :: "json \<Rightarrow> py_error + json" where
  "py_lstrip_v (JStr s) = Inr (JStr (lstrip CHR ''v'' s))"
| "py_lstrip_v JNull = Inl AttributeError"
| "py_lstrip_v (JBool b) = Inl AttributeError"
| "py_lstrip_v (JNum n) = Inl AttributeError"
| "py_lstrip_v (JArr xs) = Inl AttributeError"
| "py_lstrip_v (JObj kvs) = Inl AttributeError"

section \<open>The HTTP client (utils.py, \<open>HTTPClient.get\<close>)\<close>

text \<open>
  \<^verbatim>\<open>
  try:
      ...
      response = self.session.get(url, timeout=self.timeout)
      response.raise_for_status()
      return response.json()
  except requests.exceptions.RequestException as e:
      logging.warning(...); return None
  except json.JSONDecodeError as e:
      logging.warning(...); return None
  \<close>
  What a request can end in: a connection failure, a timeout, an error status (all three
  are \<open>RequestException\<close>s), a body that is not JSON, or a decoded body. The network is
  a parameter that answers every URL with one of these.
\<close>

datatype http_outcome =
    ConnectionError
  | Timeout
  | HTTPError
  | JSONDecodeError
  | Body json

type_synonym network = "string \<Rightarrow> http_outcome"

definition http_get :: "network \<Rightarrow> string \<Rightarrow> json" where
  "http_get net url =
     (case net url of
        Body j \<Rightarrow> j
      | ConnectionError \<Rightarrow> JNull
      | Timeout \<Rightarrow> JNull
      | HTTPError \<Rightarrow> JNull
      | JSONDecodeError \<Rightarrow> JNull)"

section \<open>The version resolvers\<close>

text \<open>
  update-tools.py, \<open>check_pypi_version\<close>:
  \<^verbatim>\<open>
  data = self.http_client.get(url)
  if data and 'info' in data:
      return data['info']['version']
  return None
  \<close>
  \<open>check_npm_version\<close> reads \<open>data['dist-tags']['latest']\<close> in the same way. Neither has
  a handler of its own, so what the subscripts raise leaves the resolver.
\<close>

definition check_pypi_version :: "network \<Rightarrow> string \<Rightarrow> py_error + json" where
  "check_pypi_version net package_name =
     (let data = http_get net (''https://pypi.org/pypi/'' @ package_name @ ''/json'') in
      if \<not> py_truthy data then Inr JNull
      else (case py_contains ''info'' data of
              Inl e \<Rightarrow> Inl e
            | Inr False \<Rightarrow> Inr JNull
            | Inr True \<Rightarrow>
                (case py_getitem data ''info'' of
                   Inl e \<Rightarrow> Inl e
                 | Inr info \<Rightarrow> py_getitem info ''version'')))"

definition check_npm_version :: "network \<Rightarrow> string \<Rightarrow> py_error + json" where
  "check_npm_version net package_name =
     (let data = http_get net (''https://registry.npmjs.org/'' @ package_name) in
      if \<not> py_truthy data then Inr JNull
      else (case py_contains ''dist-tags'' data of
              Inl e \<Rightarrow> Inl e
            | Inr False \<Rightarrow> Inr JNull
            | Inr True \<Rightarrow>
                (case py_getitem data ''dist-tags'' of
                   Inl e \<Rightarrow> Inl e
                 | Inr tags \<Rightarrow> py_getitem tags ''latest'')))"

text \<open>
  \<open>check_github_releases\<close> first searches the repository URL for the pattern
  \<open>github\.com/([^/]+)/([^/]+)\<close>. \<open>match_repo_at\<close> is a match that starts at the head of
  the string: the literal, a longest run of characters other than \<open>/\<close>, a \<open>/\<close>, and
  another longest run. Both runs are greedy and cannot give a character back, since the
  character after a shorter run is not a \<open>/\<close>. \<open>search_repo\<close> is \<open>re.search\<close>: the
  leftmost position with a match.
\<close>

definition not_slash :: "char \<Rightarrow> bool" where
  "not_slash c = (c \<noteq> CHR ''/'')"

definition match_repo_at :: "string \<Rightarrow> (string \<times> string) option" where
  "match_repo_at s =
     (if starts_with ''github.com/'' s
      then (let r = drop (length ''github.com/'') s;
                owner = takeWhile not_slash r;
                r' = dropWhile not_slash r
            in if owner = [] \<or> r' = [] then None
               else (let repo = takeWhile not_slash (tl r')
                     in if repo = [] then None else Some (owner, repo)))
      else None)"

fun search_repo :: "string \<Rightarrow> (string \<times> string) option" where
  "search_repo [] = None"
| "search_repo (c # cs) =
     (case match_repo_at (c # cs) of
        Some m \<Rightarrow> Some m
      | None \<Rightarrow> search_repo cs)"

definition releases_url :: "string \<Rightarrow> string \<Rightarrow> string" where
  "releases_url owner repo =
     ''https://api.github.com/repos/'' @ owner @ ''/'' @ repo @ ''/releases/latest''"

text \<open>
  \<^verbatim>\<open>
  match = re.search(r'github\.com/([^/]+)/([^/]+)', repo_url)
  if not match:
      return None
  owner, repo = match.groups()
  data = self.http_client.get(url)
  if data and 'tag_name' in data:
      return data['tag_name'].lstrip('v')
  return None
  \<close>
\<close>

definition check_github_releases :: "network \<Rightarrow> string \<Rightarrow> py_error + json" where
  "check_github_releases net repo_url =
     (case search_repo repo_url of
        None \<Rightarrow> Inr JNull
      | Some (owner, repo) \<Rightarrow>
          (let data = http_get net (releases_url owner repo) in
           if \<not> py_truthy data then Inr JNull
           else (case py_contains ''tag_name'' data of
                   Inl e \<Rightarrow> Inl e
                 | Inr False \<Rightarrow> Inr JNull
                 | Inr True \<Rightarrow>
                     (case py_getitem data ''tag_name'' of
                        Inl e \<Rightarrow> Inl e
                      | Inr tag \<Rightarrow> py_lstrip_v tag))))"

text \<open>
  utils.py, \<open>check_homebrew_version\<close>:
  \<^verbatim>\<open>
  try:
      result = subprocess.run(['brew', 'info', formula_name, '--json'],
                              capture_output=True, text=True, timeout=10)
      if result.returncode == 0:
          data = json.loads(result.stdout)
          if data and isinstance(data, list) and len(data) > 0:
              return data[0].get('versions', {}).get('stable', None)
  except (subprocess.TimeoutExpired, subprocess.CalledProcessError,
          json.JSONDecodeError) as e:
      logging.warning(...)
  return None
  \<close>
  \<open>subprocess.run\<close> ends in one of three ways: the program cannot be started
  (\<open>FileNotFoundError\<close>, when no \<open>brew\<close> is installed), it runs past the timeout
  (\<open>TimeoutExpired\<close>), or it exits with a return code and its output. Without
  \<open>check=True\<close> it never raises \<open>CalledProcessError\<close>. \<open>json.loads\<close> is a parameter:
  \<open>None\<close> stands for \<open>JSONDecodeError\<close>.
\<close>

datatype brew_outcome =
    BrewNotFound
  | BrewTimeout
  | BrewExit int string

type_synonym brew = "string \<Rightarrow> brew_outcome"

definition first_formula_stable :: "json \<Rightarrow> py_error + json" where
  "first_formula_stable data =
     (case data of
        JArr (formula # rest) \<Rightarrow>
          (case py_get formula ''versions'' (JObj []) of
             Inl e \<Rightarrow> Inl e
           | Inr versions \<Rightarrow> py_get versions ''stable'' JNull)
      | _ \<Rightarrow> Inr JNull)"

definition check_homebrew_version ::
  "brew \<Rightarrow> (string \<Rightarrow> json option) \<Rightarrow> string \<Rightarrow> py_error + json" where
  "check_homebrew_version run_brew json_loads formula_name =
     (case run_brew formula_name of
        BrewNotFound \<Rightarrow> Inl FileNotFoundError
      | BrewTimeout \<Rightarrow> Inr JNull
      | BrewExit returncode stdout \<Rightarrow>
          if returncode = 0
          then (case json_loads stdout of
                  None \<Rightarrow> Inr JNull
                | Some data \<Rightarrow> first_formula_stable data)
          else Inr JNull)"

section \<open>Version comparison (update-tools.py, \<open>_is_newer_version\<close>)\<close>

text \<open>
  \<^verbatim>\<open>
  try:
      from packaging import version
      return version.parse(new_version) > version.parse(current_version)
  except Exception as e:
      logging.warning(...)
      return new_version != current_version
  \<close>
  \<open>packaging\<close> is a third-party library, so its parser is a parameter of the model:
  \<open>parse s = None\<close> stands for \<open>version.parse(s)\<close> raising \<open>InvalidVersion\<close>, and
  \<open>parse s = Some k\<close> for a \<open>Version\<close> whose comparison key is \<open>k\<close>. Versions compare by
  their keys, which are linearly ordered tuples, hence the sort \<open>linorder\<close>.
  \<open>main\<close> installs \<open>packaging\<close> before a checker is built, so the import inside the
  \<open>try\<close> does not fail.
\<close>

text \<open>The body of the \<open>try\<close>: the left operand is parsed first.\<close>

definition compare_parsed ::
  "(string \<Rightarrow> 'v::linorder option) \<Rightarrow> string \<Rightarrow> string \<Rightarrow> py_error + bool" where
  "compare_parsed parse new_version current_version =
     (case parse new_version of
        None \<Rightarrow> Inl InvalidVersion
      | Some a \<Rightarrow>
          (case parse current_version of
             None \<Rightarrow> Inl InvalidVersion
           | Some b \<Rightarrow> Inr (a > b)))"

definition is_newer_version ::
  "(string \<Rightarrow> 'v::linorder option) \<Rightarrow> string \<Rightarrow> string \<Rightarrow> bool" where
  "is_newer_version parse new_version current_version =
     (case compare_parsed parse new_version current_version of
        Inr b \<Rightarrow> b
      | Inl e \<Rightarrow> new_version \<noteq> current_version)"

subsection \<open>A concrete parser: release-only versions\<close>

text \<open>
  For concrete runs the parser is instantiated with the release-only fragment of
  \<open>packaging.version\<close>: a string \<open>N(.N)*\<close> of decimal numbers separated by single dots.
  The comparison key of such a version is its release tuple with trailing zeros removed
  (\<open>1.0\<close> equals \<open>1.0.0\<close>), compared as Python compares tuples, which is the
  lexicographic order of \<open>List_Lexorder\<close>. Strings with an epoch, a pre-, post- or
  dev-release part, a local version, a leading \<open>v\<close> or surrounding blanks are outside this
  fragment, and \<open>parse_release\<close> is only applied to strings that are either in the fragment
  or rejected by the library as well.
\<close>

definition is_digit :: "char \<Rightarrow> bool" where
  "is_digit c = (c \<in> set ''0123456789'')"

definition digit_val :: "char \<Rightarrow> nat" where
  "digit_val c = of_char c - 48"

definition parse_int :: "string \<Rightarrow> nat" where
  "parse_int s = foldl (\<lambda>n c. 10 * n + digit_val c) 0 s"

text \<open>\<open>str.split(sep)\<close> for a one-character separator: always at least one segment.\<close>

fun split_on :: "char \<Rightarrow> string \<Rightarrow> string list" where
  "split_on sep [] = [[]]"
| "split_on sep (c # cs) =
     (if c = sep then [] # split_on sep cs
      else (case split_on sep cs of
              [] \<Rightarrow> [[c]]
            | seg # segs \<Rightarrow> (c # seg) # segs))"

definition strip_trailing_zeros :: "nat list \<Rightarrow> nat list" where
  "strip_trailing_zeros ns = rev (dropWhile (\<lambda>n. n = 0) (rev ns))"

definition parse_release :: "string \<Rightarrow> nat list option" where
  "parse_release s =
     (let segs = split_on CHR ''.'' s in
      if list_all (\<lambda>seg. seg \<noteq> [] \<and> list_all is_digit seg) segs
      then Some (strip_trailing_zeros (map parse_int segs))
      else None)"

section \<open>Latest-version lookup (update-tools.py, \<open>_get_latest_version\<close>)\<close>

text \<open>
  A tracked tool is one entry of the configuration, a dict: its stored version, its
  description and the identifiers of the four sources. Every key may be absent
  (\<open>None\<close>). \<open>tool_info.get(k)\<close> is falsy when the key is absent and when it holds the
  empty string; \<open>tool_info[k]\<close> raises \<open>KeyError\<close> when the key is absent.
\<close>

record tool_info =
  current_version :: "string option"
  description :: "string option"
  homebrew_formula :: "string option"
  pypi_package :: "string option"
  npm_package :: "string option"
  source :: "string option"
  last_updated :: "string option"

text \<open>Python truthiness of an \<open>Optional[str]\<close>: \<open>None\<close> and \<open>""\<close> are falsy.\<close>

definition truthy :: "string option \<Rightarrow> bool" where
  "truthy v = (case v of None \<Rightarrow> False | Some s \<Rightarrow> s \<noteq> [])"

text \<open>
  The lookup and the detector work on version strings. They see each of the four
  resolvers through its annotated signature \<open>str -> Optional[str]\<close>, extended by the
  exception it may let through: the value at the version position of a registry's answer
  is a string or absent. The calls made are recorded in a log, in the order in which they
  happen, so that "not consulted" can be stated.
\<close>

datatype source_kind = Homebrew | PyPI | Npm | GitHub

type_synonym query = "source_kind \<times> string"

record resolvers =
  q_homebrew :: "string \<Rightarrow> py_error + string option"
  q_pypi :: "string \<Rightarrow> py_error + string option"
  q_npm :: "string \<Rightarrow> py_error + string option"
  q_github :: "string \<Rightarrow> py_error + string option"

type_synonym lookup = "query list \<times> (py_error + string option)"

text \<open>
  \<^verbatim>\<open>
  if tool_info.get('source'):
      return self.check_github_releases(tool_info['source'])
  return None
  \<close>
\<close>

definition from_github :: "resolvers \<Rightarrow> tool_info \<Rightarrow> query list \<Rightarrow> lookup" where
  "from_github R ti qs =
     (if truthy (source ti)
      then (qs @ [(GitHub, the (source ti))], q_github R (the (source ti)))
      else (qs, Inr None))"

text \<open>
  \<^verbatim>\<open>
  if tool_info.get('npm_package'):
      version = self.check_npm_version(tool_info['npm_package'])
      if version:
          return version
  \<close>
  and likewise for PyPI and Homebrew, each falling through to the next block.
\<close>

definition from_npm :: "resolvers \<Rightarrow> tool_info \<Rightarrow> query list \<Rightarrow> lookup" where
  "from_npm R ti qs =
     (if truthy (npm_package ti)
      then (case q_npm R (the (npm_package ti)) of
              Inl e \<Rightarrow> (qs @ [(Npm, the (npm_package ti))], Inl e)
            | Inr version \<Rightarrow>
                if truthy version then (qs @ [(Npm, the (npm_package ti))], Inr version)
                else from_github R ti (qs @ [(Npm, the (npm_package ti))]))
      else from_github R ti qs)"

definition from_pypi :: "resolvers \<Rightarrow> tool_info \<Rightarrow> query list \<Rightarrow> lookup" where
  "from_pypi R ti qs =
     (if truthy (pypi_package ti)
      then (case q_pypi R (the (pypi_package ti)) of
              Inl e \<Rightarrow> (qs @ [(PyPI, the (pypi_package ti))], Inl e)
            | Inr version \<Rightarrow>
                if truthy version then (qs @ [(PyPI, the (pypi_package ti))], Inr version)
                else from_npm R ti (qs @ [(PyPI, the (pypi_package ti))]))
      else from_npm R ti qs)"

definition get_latest_version :: "resolvers \<Rightarrow> tool_info \<Rightarrow> lookup" where
  "get_latest_version R ti =
     (if truthy (homebrew_formula ti)
      then (case q_homebrew R (the (homebrew_formula ti)) of
              Inl e \<Rightarrow> ([(Homebrew, the (homebrew_formula ti))], Inl e)
            | Inr version \<Rightarrow>
                if truthy version then ([(Homebrew, the (homebrew_formula ti))], Inr version)
                else from_pypi R ti [(Homebrew, the (homebrew_formula ti))])
      else from_pypi R ti [])"

text \<open>
  The vocabulary of the claims: the sources a tool has configured, in the fixed priority
  order, the answer of one source, and what an empty answer is.
\<close>

definition configured :: "source_kind \<Rightarrow> string option \<Rightarrow> query list" where
  "configured k ident = (if truthy ident then [(k, the ident)] else [])"

definition configured_sources :: "tool_info \<Rightarrow> query list" where
  "configured_sources ti =
     configured Homebrew (homebrew_formula ti) @ configured PyPI (pypi_package ti) @
     configured Npm (npm_package ti) @ configured GitHub (source ti)"

fun resolve :: "resolvers \<Rightarrow> query \<Rightarrow> py_error + string option" where
  "resolve R (Homebrew, i) = q_homebrew R i"
| "resolve R (PyPI, i) = q_pypi R i"
| "resolve R (Npm, i) = q_npm R i"
| "resolve R (GitHub, i) = q_github R i"

definition empty_result :: "py_error + string option \<Rightarrow> bool" where
  "empty_result r = (case r of Inl e \<Rightarrow> False | Inr v \<Rightarrow> \<not> truthy v)"

section \<open>Update detection (update-tools.py, \<open>check_tool_updates\<close>, \<open>_record_update\<close>)\<close>

record version_update =
  u_tool :: string
  u_category :: string
  u_old_version :: string
  u_new_version :: string
  u_description :: string

text \<open>
  \<^verbatim>\<open>
  self.updates_found.append({
      'tool': tool_name,
      'category': category,
      'old_version': tool_info['current_version'],
      'new_version': latest_version,
      'description': tool_info['description']
  })
  tool_info['current_version'] = latest_version
  tool_info['last_updated'] = get_current_timestamp()
  \<close>
  The dict is built before it is appended, so a tool without a stored version or without
  a description raises \<open>KeyError\<close> with nothing appended and nothing overwritten.
  \<open>now\<close> is what \<open>get_current_timestamp()\<close> returns.
\<close>

definition record_update ::
  "string \<Rightarrow> string \<Rightarrow> string \<Rightarrow> tool_info \<Rightarrow> string \<Rightarrow> version_update list
     \<Rightarrow> py_error + (tool_info \<times> version_update list)" where
  "record_update now tool_name category ti latest_version updates_found =
     (case current_version ti of
        None \<Rightarrow> Inl KeyError
      | Some old_version \<Rightarrow>
          (case description ti of
             None \<Rightarrow> Inl KeyError
           | Some d \<Rightarrow>
               Inr (ti\<lparr>current_version := Some latest_version, last_updated := Some now\<rparr>,
                    updates_found @
                      [\<lparr>u_tool = tool_name, u_category = category, u_old_version = old_version,
                        u_new_version = latest_version, u_description = d\<rparr>])))"

text \<open>
  The body of the inner loop:
  \<^verbatim>\<open>
  latest_version = self._get_latest_version(tool_info)
  if latest_version and self._is_newer_version(latest_version, tool_info['current_version']):
      self._record_update(tool_name, category, tool_info, latest_version)
      logging.info(f"Update found for {tool_name}: {tool_info['current_version']} ...")
  else:
      logging.debug(f"{tool_name} is up to date: {tool_info['current_version']}")
  \<close>
  An exception of a resolver ends the run: there is no handler. \<open>and\<close> short-circuits,
  but the stored version is read on every path: as the argument of the comparison when
  the latest version is truthy, and by the message of the \<open>else\<close> branch, which is
  formatted before \<open>logging.debug\<close> is called, when it is not. A tool without a stored
  version therefore raises \<open>KeyError\<close> whatever the lookup gives.
\<close>

definition check_tool ::
  "resolvers \<Rightarrow> (string \<Rightarrow> 'v::linorder option) \<Rightarrow> string \<Rightarrow> string \<Rightarrow> string \<Rightarrow> tool_info
     \<Rightarrow> version_update list \<Rightarrow> py_error + (tool_info \<times> version_update list)" where
  "check_tool R parse now category tool_name ti updates_found =
     (case snd (get_latest_version R ti) of
        Inl e \<Rightarrow> Inl e
      | Inr latest_version \<Rightarrow>
          (case current_version ti of
             None \<Rightarrow> Inl KeyError
           | Some stored \<Rightarrow>
               if truthy latest_version \<and> is_newer_version parse (the latest_version) stored
               then record_update now tool_name category ti (the latest_version) updates_found
               else Inr (ti, updates_found)))"

text \<open>
  The configuration's \<open>tracked_tools\<close> is a dict of categories, each a dict of tools.
  Dicts keep insertion order, so both are association lists, iterated front to back.
\<close>

type_synonym tools = "(string \<times> tool_info) list"
type_synonym tracked_tools = "(string \<times> tools) list"

fun check_tools ::
  "resolvers \<Rightarrow> (string \<Rightarrow> 'v::linorder option) \<Rightarrow> string \<Rightarrow> string \<Rightarrow> tools
     \<Rightarrow> version_update list \<Rightarrow> py_error + (tools \<times> version_update list)" where
  "check_tools R parse now category [] ups = Inr ([], ups)"
| "check_tools R parse now category ((tool_name, ti) # rest) ups =
     (case check_tool R parse now category tool_name ti ups of
        Inl e \<Rightarrow> Inl e
      | Inr (ti', ups') \<Rightarrow>
          (case check_tools R parse now category rest ups' of
             Inl e \<Rightarrow> Inl e
           | Inr (rest', ups'') \<Rightarrow> Inr ((tool_name, ti') # rest', ups'')))"

fun check_categories ::
  "resolvers \<Rightarrow> (string \<Rightarrow> 'v::linorder option) \<Rightarrow> string \<Rightarrow> tracked_tools
     \<Rightarrow> version_update list \<Rightarrow> py_error + (tracked_tools \<times> version_update list)" where
  "check_categories R parse now [] ups = Inr ([], ups)"
| "check_categories R parse now ((category, ts) # rest) ups =
     (case check_tools R parse now category ts ups of
        Inl e \<Rightarrow> Inl e
      | Inr (ts', ups') \<Rightarrow>
          (case check_categories R parse now rest ups' of
             Inl e \<Rightarrow> Inl e
           | Inr (rest', ups'') \<Rightarrow> Inr ((category, ts') # rest', ups'')))"

text \<open>A checker starts with \<open>updates_found = []\<close>, and \<open>run\<close> checks once.\<close>

definition check_tool_updates ::
  "resolvers \<Rightarrow> (string \<Rightarrow> 'v::linorder option) \<Rightarrow> string \<Rightarrow> tracked_tools
     \<Rightarrow> py_error + (tracked_tools \<times> version_update list)" where
  "check_tool_updates R parse now cfg = check_categories R parse now cfg []"

definition lookup_tool :: "tracked_tools \<Rightarrow> string \<Rightarrow> string \<Rightarrow> tool_info option" where
  "lookup_tool cfg category tool_name =
     (case map_of cfg category of None \<Rightarrow> None | Some ts \<Rightarrow> map_of ts tool_name)"




section \<open>Trend scanner (update-tools.py, \<open>search_trending_tools\<close>)\<close>

text \<open>
  \<^verbatim>\<open>
  for topic in topics:
      try:
          created_since = datetime.now().strftime('%Y-%m-%d')
          query = f"topic:{topic} created:>={created_since}"
          url = f"https://api.github.com/search/repositories?q={query}&sort=stars&order=desc&per_page=5"
          data = self.http_client.get(url)
          if data and 'items' in data:
              for repo in data['items']:
                  if repo['stargazers_count'] > 50:
                      self.trending_tools.append({...})
      except Exception as e:
          logging.warning(...)
  \<close>
  An exception inside the \<open>try\<close> ends the work on that topic; what was appended before
  stays in the list. \<open>today\<close> is the date \<open>datetime.now()\<close> gives.
\<close>

record trending_repo =
  t_name :: json
  t_url :: json
  t_description :: json
  t_stars :: json
  t_language :: json
  t_topic :: string
  t_created_at :: json

text \<open>The dict that is appended; its values are read in the order of the literal.\<close>

definition trending_entry :: "string \<Rightarrow> json \<Rightarrow> py_error + trending_repo" where
  "trending_entry topic repo =
     (case py_getitem repo ''name'' of Inl e \<Rightarrow> Inl e | Inr name \<Rightarrow>
      case py_getitem repo ''html_url'' of Inl e \<Rightarrow> Inl e | Inr url \<Rightarrow>
      case py_getitem repo ''description'' of Inl e \<Rightarrow> Inl e | Inr desc \<Rightarrow>
      case py_getitem repo ''stargazers_count'' of Inl e \<Rightarrow> Inl e | Inr stars \<Rightarrow>
      case py_getitem repo ''language'' of Inl e \<Rightarrow> Inl e | Inr lang \<Rightarrow>
      case py_getitem repo ''created_at'' of Inl e \<Rightarrow> Inl e | Inr created \<Rightarrow>
        Inr \<lparr>t_name = name, t_url = url,
             t_description = py_or desc (JStr ''No description available''),
             t_stars = stars, t_language = lang, t_topic = topic, t_created_at = created\<rparr>)"

text \<open>The body of the inner loop: \<open>None\<close> when the candidate is not kept.\<close>

definition examine_repo :: "string \<Rightarrow> json \<Rightarrow> py_error + trending_repo option" where
  "examine_repo topic repo =
     (case py_getitem repo ''stargazers_count'' of
        Inl e \<Rightarrow> Inl e
      | Inr stars \<Rightarrow>
          (case py_gt stars 50 of
             Inl e \<Rightarrow> Inl e
           | Inr False \<Rightarrow> Inr None
           | Inr True \<Rightarrow>
               (case trending_entry topic repo of
                  Inl e \<Rightarrow> Inl e
                | Inr t \<Rightarrow> Inr (Some t))))"

fun scan_repos :: "string \<Rightarrow> json list \<Rightarrow> trending_repo list \<Rightarrow> trending_repo list" where
  "scan_repos topic [] trending_tools = trending_tools"
| "scan_repos topic (repo # rest) trending_tools =
     (case examine_repo topic repo of
        Inl e \<Rightarrow> trending_tools
      | Inr None \<Rightarrow> scan_repos topic rest trending_tools
      | Inr (Some t) \<Rightarrow> scan_repos topic rest (trending_tools @ [t]))"

definition search_url :: "string \<Rightarrow> string \<Rightarrow> string" where
  "search_url today topic =
     ''https://api.github.com/search/repositories?q='' @
     (''topic:'' @ topic @ '' created:>='' @ today) @
     ''&sort=stars&order=desc&per_page=5''"

definition search_topic ::
  "network \<Rightarrow> string \<Rightarrow> string \<Rightarrow> trending_repo list \<Rightarrow> trending_repo list" where
  "search_topic net today topic trending_tools =
     (let data = http_get net (search_url today topic) in
      if \<not> py_truthy data then trending_tools
      else (case py_contains ''items'' data of
              Inl e \<Rightarrow> trending_tools
            | Inr False \<Rightarrow> trending_tools
            | Inr True \<Rightarrow>
                (case py_getitem data ''items'' of
                   Inl e \<Rightarrow> trending_tools
                 | Inr items \<Rightarrow>
                     (case py_iter items of
                        Inl e \<Rightarrow> trending_tools
                      | Inr repos \<Rightarrow> scan_repos topic repos trending_tools))))"


section \<open>Report generator (utils.py, \<open>ReportGenerator.generate_markdown_report\<close>)\<close>

text \<open>
  \<^verbatim>\<open>
  report = [f"# {title}"]
  report.append(f"*Generated: {datetime.now().strftime('%Y-%m-%d %H:%M:%S')}*\n")
  for section in sections:
      report.append(f"## {section['title']}")
      if 'content' in section:
          report.append(section['content'])
      if 'items' in section:
          for item in section['items']:
              report.append(f"- {item}")
      report.append("")
  return "\n".join(report)
  \<close>
  A section is a dict with a title and, optionally, a content and a list of items.
  \<open>stamp\<close> is the formatted time of the call.
\<close>

definition nl :: char where
  "nl = CHR 0x0A"

record report_section =
  s_title :: string
  s_content :: "string option"
  s_items :: "string list option"

fun join_lines :: "string list \<Rightarrow> string" where
  "join_lines [] = []"
| "join_lines [l] = l"
| "join_lines (l # l' # ls) = l @ [nl] @ join_lines (l' # ls)"

definition section_lines :: "report_section \<Rightarrow> string list" where
  "section_lines section =
     [''## '' @ s_title section] @
     (case s_content section of None \<Rightarrow> [] | Some c \<Rightarrow> [c]) @
     (case s_items section of None \<Rightarrow> [] | Some items \<Rightarrow> map (\<lambda>item. ''- '' @ item) items) @
     [[]]"

definition report_head :: "string \<Rightarrow> string \<Rightarrow> string list" where
  "report_head stamp title = [''# '' @ title, ''*Generated: '' @ stamp @ ''*'' @ [nl]]"

definition generate_markdown_report :: "string \<Rightarrow> string \<Rightarrow> report_section list \<Rightarrow> string" where
  "generate_markdown_report stamp title sections =
     join_lines (report_head stamp title @ concat (map section_lines sections))"

section \<open>README rewrite (update-tools.py, \<open>update_readme\<close>)\<close>

text \<open>
  The README is read as text, and the rewrites look for an en dash and compare letters
  without regard to case, so a document is the list of its code points here. \<open>cps\<close>
  reads a string of this theory as code points.
\<close>

type_synonym ustr = "nat list"

definition cps :: "string \<Rightarrow> ustr" where
  "cps s = map of_char s"

fun prefix_of :: "ustr \<Rightarrow> ustr \<Rightarrow> bool" where
  "prefix_of [] s = True"
| "prefix_of (p # ps) [] = False"
| "prefix_of (p # ps) (c # cs) = (p = c \<and> prefix_of ps cs)"

fun occurs :: "ustr \<Rightarrow> ustr \<Rightarrow> bool" where
  "occurs p [] = prefix_of p []"
| "occurs p (c # cs) = (prefix_of p (c # cs) \<or> occurs p cs)"

subsection \<open>What the \<open>re\<close> library decides\<close>

text \<open>
  Two things are the library's. The first is which characters \<open>re.IGNORECASE\<close> takes for
  the same: for two ASCII characters it is equality of their lower-case forms; an ASCII
  character that is not a letter matches itself only; every other pair is decided by the
  library's Unicode tables, the parameter \<open>uni\<close>.
\<close>

definition ascii_lower :: "nat \<Rightarrow> nat" where
  "ascii_lower c = (if 65 \<le> c \<and> c \<le> 90 then c + 32 else c)"

definition ascii_letter :: "nat \<Rightarrow> bool" where
  "ascii_letter c = ((65 \<le> c \<and> c \<le> 90) \<or> (97 \<le> c \<and> c \<le> 122))"

definition ci_match :: "(nat \<Rightarrow> nat \<Rightarrow> bool) \<Rightarrow> nat \<Rightarrow> nat \<Rightarrow> bool" where
  "ci_match uni p c =
     (if p < 128 \<and> c < 128 then ascii_lower p = ascii_lower c
      else if (p < 128 \<and> \<not> ascii_letter p) \<or> (c < 128 \<and> \<not> ascii_letter c) then False
      else uni p c)"

text \<open>
  The second is the replacement template. \<open>re.sub\<close> prepares it before it searches: a
  template without a backslash stands for itself; the template \<open>\g<1>text\g<3>\<close> whose
  text holds no backslash stands for group 1, the text and group 3; what any other
  template stands for, or the error it raises, is the parameter \<open>lib\<close>, which is given
  the number of groups of the pattern and the template.
\<close>

type_synonym template = "ustr list \<Rightarrow> ustr"

definition group_ref :: "string \<Rightarrow> ustr" where
  "group_ref digit = [92] @ cps ''g<'' @ cps digit @ cps ''>''"

definition cell_text :: "ustr \<Rightarrow> ustr" where
  "cell_text t = take (length t - 10) (drop 5 t)"

definition is_cell_template :: "ustr \<Rightarrow> bool" where
  "is_cell_template t =
     (10 \<le> length t \<and> take 5 t = group_ref ''1'' \<and> drop (length t - 5) t = group_ref ''3'' \<and>
      92 \<notin> set (cell_text t))"

definition compile_template ::
  "(nat \<Rightarrow> ustr \<Rightarrow> py_error + template) \<Rightarrow> nat \<Rightarrow> ustr \<Rightarrow> py_error + template" where
  "compile_template lib n t =
     (if 92 \<notin> set t then Inr (\<lambda>groups. t)
      else if n = 3 \<and> is_cell_template t then Inr (\<lambda>groups. groups ! 0 @ cell_text t @ groups ! 2)
      else lib n t)"

subsection \<open>The version cells\<close>

text \<open>
  \<^verbatim>\<open>
  for update in self.updates_found:
      if update['category'] == 'ai_frameworks':
          pattern = rf"(\*\*{re.escape(update['tool'])}\*\*\|)([^|]+)(\|)"
          replacement = rf"\g<1>{update['new_version']} (Updated {get_current_timestamp()})\g<3>"
          content = re.sub(pattern, replacement, content, flags=re.IGNORECASE)
  \<close>
  The pattern is the key \<open>**tool**|\<close>, matched without regard to letter case, then a
  longest non-empty run of characters other than \<open>|\<close> (a line break is such a character),
  then a \<open>|\<close>. The run cannot give a character back, since the character after a shorter
  run is not a \<open>|\<close>.
\<close>

fun ci_starts_with :: "(nat \<Rightarrow> nat \<Rightarrow> bool) \<Rightarrow> ustr \<Rightarrow> ustr \<Rightarrow> bool" where
  "ci_starts_with uni [] s = True"
| "ci_starts_with uni (p # ps) [] = False"
| "ci_starts_with uni (p # ps) (c # cs) = (ci_match uni p c \<and> ci_starts_with uni ps cs)"

definition not_pipe :: "nat \<Rightarrow> bool" where
  "not_pipe c = (c \<noteq> 124)"

definition row_key :: "string \<Rightarrow> ustr" where
  "row_key tool = cps ''**'' @ cps tool @ cps ''**|''"

text \<open>
  A match at the head of the text: the text of group 1, the cell of group 2 and what
  follows the closing \<open>|\<close> of group 3.
\<close>

definition match_cell_at ::
  "(nat \<Rightarrow> nat \<Rightarrow> bool) \<Rightarrow> ustr \<Rightarrow> ustr \<Rightarrow> (ustr \<times> ustr \<times> ustr) option" where
  "match_cell_at uni key s =
     (if ci_starts_with uni key s
      then (let g1 = take (length key) s;
                r = drop (length key) s;
                cell = takeWhile not_pipe r;
                r' = dropWhile not_pipe r
            in if cell = [] \<or> r' = [] \<or> \<not> ci_match uni 124 (hd r') then None
               else Some (g1, cell, tl r'))
      else None)"

text \<open>
  \<open>re.sub\<close>: at each position, from the left, a match is replaced by what the template
  stands for, and the scan goes on behind the match; otherwise the character is copied.
  The key is never empty, so a match is never empty.
\<close>

function sub_cells :: "(nat \<Rightarrow> nat \<Rightarrow> bool) \<Rightarrow> ustr \<Rightarrow> template \<Rightarrow> ustr \<Rightarrow> ustr" where
  "sub_cells uni key expand [] = []"
| "sub_cells uni key expand (c # cs) =
     (case match_cell_at uni key (c # cs) of
        Some (g1, cell, rest) \<Rightarrow> expand [g1, cell, [124]] @ sub_cells uni key expand rest
      | None \<Rightarrow> c # sub_cells uni key expand cs)"
  by pat_completeness auto
termination
proof (relation "measure (\<lambda>(uni, key, expand, s). length s)")
  show "wf (measure (\<lambda>(uni, key, expand, s). length s))" by simp
next
  fix uni :: "nat \<Rightarrow> nat \<Rightarrow> bool" and key :: ustr and expand :: template
    and c cs x2 g1 y cell rest
  assume "match_cell_at uni key (c # cs) = Some x2" and "(g1, y) = x2" and "(cell, rest) = y"
  then have m: "match_cell_at uni key (c # cs) = Some (g1, cell, rest)" by simp
  let ?r = "drop (length key) (c # cs)"
  from m have r: "rest = tl (dropWhile not_pipe ?r)" "dropWhile not_pipe ?r \<noteq> []"
    by (auto simp: match_cell_at_def Let_def split: if_splits)
  have "length (dropWhile not_pipe ?r) \<le> length ?r" by (rule length_dropWhile_le)
  moreover have "length rest < length (dropWhile not_pipe ?r)"
    using r by (cases "dropWhile not_pipe ?r") auto
  ultimately have "length rest < length (c # cs)" by simp
  then show "((uni, key, expand, rest), (uni, key, expand, c # cs))
      \<in> measure (\<lambda>(uni, key, expand, s). length s)"
    by simp
next
  fix uni :: "nat \<Rightarrow> nat \<Rightarrow> bool" and key :: ustr and expand :: template and c cs
  show "((uni, key, expand, cs), (uni, key, expand, c # cs))
      \<in> measure (\<lambda>(uni, key, expand, s). length s)"
    by simp
qed

definition version_cell :: "string \<Rightarrow> string \<Rightarrow> ustr" where
  "version_cell new_version now = cps new_version @ cps '' (Updated '' @ cps now @ cps '')''"

fun update_version_cells ::
  "(nat \<Rightarrow> nat \<Rightarrow> bool) \<Rightarrow> (nat \<Rightarrow> ustr \<Rightarrow> py_error + template) \<Rightarrow> string
     \<Rightarrow> version_update list \<Rightarrow> ustr \<Rightarrow> py_error + ustr" where
  "update_version_cells uni lib now [] content = Inr content"
| "update_version_cells uni lib now (u # updates) content =
     (if u_category u = ''ai_frameworks''
      then (case compile_template lib 3
                   (group_ref ''1'' @ version_cell (u_new_version u) now @ group_ref ''3'') of
              Inl e \<Rightarrow> Inl e
            | Inr expand \<Rightarrow>
                update_version_cells uni lib now updates
                  (sub_cells uni (row_key (u_tool u)) expand content))
      else update_version_cells uni lib now updates content)"

subsection \<open>The trending section\<close>

text \<open>
  \<^verbatim>\<open>
  trending_section = self._generate_trending_section()
  if "## Trending Tools to Investigate" not in content:
      content += f"\n\n---\n\n{trending_section}"
  else:
      pattern = r"## Trending Tools to Investigate.*?(?=\n\n---|\n\n##|\Z)"
      content = re.sub(pattern, trending_section, content, flags=re.DOTALL)
  \<close>
  The text that \<open>_generate_trending_section\<close> returns is an input here. A match is the
  header and the shortest text behind it that ends before \<open>\n\n---\<close>, before \<open>\n\n##\<close>
  or at the end of the document.
\<close>

definition section_header :: ustr where
  "section_header = cps ''## Trending Tools to Investigate''"

definition stop_here :: "ustr \<Rightarrow> bool" where
  "stop_here s = (prefix_of ([10, 10] @ cps ''---'') s \<or> prefix_of ([10, 10] @ cps ''##'') s \<or> s = [])"

fun stop_index :: "ustr \<Rightarrow> nat" where
  "stop_index [] = 0"
| "stop_index (c # cs) = (if stop_here (c # cs) then 0 else Suc (stop_index cs))"

function sub_section :: "template \<Rightarrow> ustr \<Rightarrow> ustr" where
  "sub_section expand [] = []"
| "sub_section expand (c # cs) =
     (if prefix_of section_header (c # cs)
      then (let r = drop (length section_header) (c # cs)
            in expand [] @ sub_section expand (drop (stop_index r) r))
      else c # sub_section expand cs)"
  by pat_completeness auto
termination
  by (relation "measure (\<lambda>(expand, s). length s)") (auto simp: section_header_def cps_def)

definition add_trending_section ::
  "(nat \<Rightarrow> ustr \<Rightarrow> py_error + template) \<Rightarrow> ustr \<Rightarrow> ustr \<Rightarrow> py_error + ustr" where
  "add_trending_section lib content section =
     (if \<not> occurs section_header content
      then Inr (content @ [10, 10] @ cps ''---'' @ [10, 10] @ section)
      else (case compile_template lib 0 section of
              Inl e \<Rightarrow> Inl e
            | Inr expand \<Rightarrow> Inr (sub_section expand content)))"

subsection \<open>The generation marker\<close>

text \<open>
  \<^verbatim>\<open>
  today = datetime.now().strftime('%B %d, %Y')
  content = re.sub(r'Generated.*?<U+2013>', f'Generated {today} <U+2013>', content)
  \<close>
  where \<open><U+2013>\<close> stands for the en dash of the source, code point 8211. A match is
  the word \<open>Generated\<close> and the shortest text behind it, on the same line, that ends
  with an en dash.
\<close>

definition marker :: ustr where
  "marker = cps ''Generated''"

fun dash_index :: "ustr \<Rightarrow> nat option" where
  "dash_index [] = None"
| "dash_index (c # cs) =
     (if c = 8211 then Some 0 else if c = 10 then None else map_option Suc (dash_index cs))"

definition match_marker_at :: "ustr \<Rightarrow> ustr option" where
  "match_marker_at s =
     (if prefix_of marker s
      then (let r = drop (length marker) s
            in case dash_index r of None \<Rightarrow> None | Some k \<Rightarrow> Some (drop (Suc k) r))
      else None)"

function sub_marker :: "template \<Rightarrow> ustr \<Rightarrow> ustr" where
  "sub_marker expand [] = []"
| "sub_marker expand (c # cs) =
     (case match_marker_at (c # cs) of
        Some rest \<Rightarrow> expand [] @ sub_marker expand rest
      | None \<Rightarrow> c # sub_marker expand cs)"
  by pat_completeness auto
termination
  by (relation "measure (\<lambda>(expand, s). length s)")
     (auto simp: match_marker_at_def Let_def split: if_splits option.splits)

definition update_marker ::
  "(nat \<Rightarrow> ustr \<Rightarrow> py_error + template) \<Rightarrow> string \<Rightarrow> ustr \<Rightarrow> py_error + ustr" where
  "update_marker lib today content =
     (case compile_template lib 0 (cps ''Generated '' @ cps today @ [32, 8211]) of
        Inl e \<Rightarrow> Inl e
      | Inr expand \<Rightarrow> Inr (sub_marker expand content))"

subsection \<open>The whole rewrite\<close>

text \<open>
  \<^verbatim>\<open>
  if not readme_path.exists():
      logging.error("README.md not found!")
      return
  with open(readme_path, 'r') as f:
      content = f.read()
  ...
  if self.trending_tools:
      content = self._add_trending_section(content)
  ...
  with open(readme_path, 'w') as f:
      f.write(content)
  \<close>
  The README is \<open>None\<close> when the file does not exist, and so is the text written when
  nothing is written. \<open>trending_section\<close> is \<open>None\<close> when no trending tool was found,
  and the text of the generated section otherwise. \<open>now\<close> is what
  \<open>get_current_timestamp()\<close> returns and \<open>today\<close> is the date as \<open>strftime\<close> formats it. An exception leaves the file as it was.
\<close>

definition update_readme ::
  "(nat \<Rightarrow> nat \<Rightarrow> bool) \<Rightarrow> (nat \<Rightarrow> ustr \<Rightarrow> py_error + template) \<Rightarrow> string \<Rightarrow> string
     \<Rightarrow> version_update list \<Rightarrow> ustr option \<Rightarrow> ustr option \<Rightarrow> py_error + ustr option" where
  "update_readme uni lib now today updates_found trending_section readme =
     (case readme of
        None \<Rightarrow> Inr None
      | Some content \<Rightarrow>
          (case update_version_cells uni lib now updates_found content of
             Inl e \<Rightarrow> Inl e
           | Inr with_cells \<Rightarrow>
               (case (case trending_section of
                        None \<Rightarrow> Inr with_cells
                      | Some section \<Rightarrow> add_trending_section lib with_cells section) of
                  Inl e \<Rightarrow> Inl e
                | Inr with_section \<Rightarrow>
                    (case update_marker lib today with_section of
                       Inl e \<Rightarrow> Inl e
                     | Inr written \<Rightarrow> Inr (Some written)))))"

section \<open>Vocabulary of the properties\<close>

subsection \<open>The lookup as a recursion over the configured sources\<close>

text \<open>
  The four blocks of \<open>_get_latest_version\<close> are one traversal of the configured sources.
  Only the last block returns what its resolver gave without testing it.
\<close>

fun scan :: "resolvers \<Rightarrow> query list \<Rightarrow> query list \<Rightarrow> lookup" where
  "scan R qs [] = (qs, Inr None)"
| "scan R qs (q # rest) =
     (case resolve R q of
        Inl e \<Rightarrow> (qs @ [q], Inl e)
      | Inr v \<Rightarrow> if truthy v \<or> fst q = GitHub then (qs @ [q], Inr v)
                else scan R (qs @ [q]) rest)"

subsection \<open>What a run does to one tool and to the configuration\<close>

text \<open>The version an update is recorded for, if any.\<close>

definition selected ::
  "resolvers \<Rightarrow> (string \<Rightarrow> 'v::linorder option) \<Rightarrow> tool_info \<Rightarrow> string option" where
  "selected R parse ti =
     (case snd (get_latest_version R ti) of
        Inl e \<Rightarrow> None
      | Inr v \<Rightarrow>
          (case current_version ti of
             None \<Rightarrow> None
           | Some stored \<Rightarrow>
               if truthy v \<and> is_newer_version parse (the v) stored then v else None))"

definition after_tool ::
  "resolvers \<Rightarrow> (string \<Rightarrow> 'v::linorder option) \<Rightarrow> string \<Rightarrow> tool_info \<Rightarrow> tool_info" where
  "after_tool R parse now ti =
     (case selected R parse ti of
        None \<Rightarrow> ti
      | Some v \<Rightarrow> ti\<lparr>current_version := Some v, last_updated := Some now\<rparr>)"

definition updates_of ::
  "resolvers \<Rightarrow> (string \<Rightarrow> 'v::linorder option) \<Rightarrow> string \<Rightarrow> string \<Rightarrow> tool_info
     \<Rightarrow> version_update list" where
  "updates_of R parse category tool_name ti =
     (case selected R parse ti of
        None \<Rightarrow> []
      | Some v \<Rightarrow>
          [\<lparr>u_tool = tool_name, u_category = category,
            u_old_version = the (current_version ti), u_new_version = v,
            u_description = the (description ti)\<rparr>])"

definition after_tools ::
  "resolvers \<Rightarrow> (string \<Rightarrow> 'v::linorder option) \<Rightarrow> string \<Rightarrow> tools \<Rightarrow> tools" where
  "after_tools R parse now ts = map (\<lambda>(n, ti). (n, after_tool R parse now ti)) ts"

definition updates_of_tools ::
  "resolvers \<Rightarrow> (string \<Rightarrow> 'v::linorder option) \<Rightarrow> string \<Rightarrow> tools \<Rightarrow> version_update list" where
  "updates_of_tools R parse category ts =
     concat (map (\<lambda>(n, ti). updates_of R parse category n ti) ts)"

definition after_config ::
  "resolvers \<Rightarrow> (string \<Rightarrow> 'v::linorder option) \<Rightarrow> string \<Rightarrow> tracked_tools \<Rightarrow> tracked_tools" where
  "after_config R parse now cfg = map (\<lambda>(c, ts). (c, after_tools R parse now ts)) cfg"

definition updates_of_config ::
  "resolvers \<Rightarrow> (string \<Rightarrow> 'v::linorder option) \<Rightarrow> tracked_tools \<Rightarrow> version_update list" where
  "updates_of_config R parse cfg = concat (map (\<lambda>(c, ts). updates_of_tools R parse c ts) cfg)"




subsection \<open>Resolvers\<close>

text \<open>A request that ends in a fault, of any of the four kinds.\<close>

definition is_fault :: "http_outcome \<Rightarrow> bool" where
  "is_fault r = (case r of Body j \<Rightarrow> False | _ \<Rightarrow> True)"

text \<open>A URL with an owner and a repository under \<open>github.com\<close>, said without the matcher.\<close>

definition has_repo_path :: "string \<Rightarrow> bool" where
  "has_repo_path url =
     (\<exists>pre owner repo rest.
        url = pre @ ''github.com/'' @ owner @ ''/'' @ repo @ rest \<and>
        owner \<noteq> [] \<and> CHR ''/'' \<notin> set owner \<and> repo \<noteq> [] \<and> CHR ''/'' \<notin> set repo)"

subsection \<open>Search candidates\<close>







subsection \<open>Reports and documents\<close>

definition carries_items :: "report_section \<Rightarrow> bool" where
  "carries_items section = (case s_items section of None \<Rightarrow> False | Some items \<Rightarrow> items \<noteq> [])"






section \<open>Concrete inputs\<close>

text \<open>A tool with a Homebrew formula and a PyPI package, stored at version 1.2.0.\<close>

definition demo_tool :: tool_info where
  "demo_tool =
     \<lparr>current_version = Some ''1.2.0'', description = Some ''demo'',
      homebrew_formula = Some ''toolx'', pypi_package = Some ''toolx'', npm_package = None,
      source = None, last_updated = None\<rparr>"

definition demo_config :: tracked_tools where
  "demo_config = [(''ai_frameworks'', [(''ToolX'', demo_tool)])]"

text \<open>The same tool with an npm package as a third source.\<close>

definition three_source_tool :: tool_info where
  "three_source_tool = demo_tool\<lparr>npm_package := Some ''toolx''\<rparr>"

definition three_source_config :: tracked_tools where
  "three_source_config = [(''ai_frameworks'', [(''ToolX'', three_source_tool)])]"



definition pypi_tool :: tool_info where
  "pypi_tool =
     \<lparr>current_version = Some ''1.2.0'', description = Some ''demo'',
      homebrew_formula = None, pypi_package = Some ''toolb'', npm_package = None,
      source = None, last_updated = None\<rparr>"

definition two_tool_config :: tracked_tools where
  "two_tool_config = [(''ai_frameworks'', [(''ToolA'', demo_tool), (''ToolB'', pypi_tool)])]"

text \<open>Homebrew answers 1.3.0 and PyPI 2.0.0.\<close>

definition demo_resolvers :: resolvers where
  "demo_resolvers =
     \<lparr>q_homebrew = (\<lambda>i. Inr (Some ''1.3.0'')), q_pypi = (\<lambda>i. Inr (Some ''2.0.0'')),
      q_npm = (\<lambda>i. Inr None), q_github = (\<lambda>i. Inr None)\<rparr>"

text \<open>Homebrew answers the empty string and PyPI 2.0.0; and no source has an answer.\<close>

definition fallback_resolvers :: resolvers where
  "fallback_resolvers =
     \<lparr>q_homebrew = (\<lambda>i. Inr (Some [])), q_pypi = (\<lambda>i. Inr (Some ''2.0.0'')),
      q_npm = (\<lambda>i. Inr None), q_github = (\<lambda>i. Inr None)\<rparr>"

definition silent_resolvers :: resolvers where
  "silent_resolvers =
     \<lparr>q_homebrew = (\<lambda>i. Inr None), q_pypi = (\<lambda>i. Inr (Some [])),
      q_npm = (\<lambda>i. Inr None), q_github = (\<lambda>i. Inr None)\<rparr>"


definition no_brew_resolvers :: resolvers where
  "no_brew_resolvers =
     \<lparr>q_homebrew = (\<lambda>i. Inl FileNotFoundError), q_pypi = (\<lambda>i. Inr (Some ''1.3.0'')),
      q_npm = (\<lambda>i. Inr None), q_github = (\<lambda>i. Inr None)\<rparr>"

text \<open>A repository URL, and a network whose latest release of it carries the given tag.\<close>

definition demo_repo_url :: string where
  "demo_repo_url = ''https://github.com/acme/toolx''"

definition release_net :: "string \<Rightarrow> network" where
  "release_net tag url =
     (if url = ''https://api.github.com/repos/acme/toolx/releases/latest''
      then Body (JObj [(''tag_name'', JStr tag)]) else HTTPError)"




text \<open>A section with an empty list of items, and an update of ToolX in a given category.\<close>

definition empty_section :: report_section where
  "empty_section = \<lparr>s_title = ''Tool Updates Found (0)'', s_content = None, s_items = Some []\<rparr>"

definition toolx_update :: "string \<Rightarrow> version_update" where
  "toolx_update category =
     \<lparr>u_tool = ''ToolX'', u_category = category, u_old_version = ''1.0.0'',
      u_new_version = ''1.1.0'', u_description = ''demo''\<rparr>"



section \<open>Properties of the comparison\<close>

lemma parse_release_1_2_0: "parse_release ''1.2.0'' = Some [1, 2]"
  by (simp add: parse_release_def strip_trailing_zeros_def parse_int_def digit_val_def is_digit_def)

lemma parse_release_1_3_0: "parse_release ''1.3.0'' = Some [1, 3]"
  by (simp add: parse_release_def strip_trailing_zeros_def parse_int_def digit_val_def is_digit_def)

lemma parse_release_2_0_0: "parse_release ''2.0.0'' = Some [2]"
  by (simp add: parse_release_def strip_trailing_zeros_def parse_int_def digit_val_def is_digit_def)

lemma parse_release_latest: "parse_release ''latest'' = None"
  by (simp add: parse_release_def is_digit_def)

text \<open>
  C3. When the parser accepts both strings, the newer-check is the strict order of the
  parsed versions (candidate greater than stored); when it rejects either of them, the
  newer-check is plain string inequality.
\<close>

theorem is_newer_version_semantic_or_inequality:
  "(\<forall>a b. parse new = Some a \<and> parse cur = Some b \<longrightarrow>
       is_newer_version parse new cur = (a > b)) \<and>
   (parse new = None \<or> parse cur = None \<longrightarrow>
       is_newer_version parse new cur = (new \<noteq> cur))"
  by (auto simp: is_newer_version_def compare_parsed_def split: option.splits)

text \<open>
  With the release parser: 1.3.0 is newer than 1.2.0 and not the other way round, and
  \<open>latest\<close>, which does not parse, counts as newer than 1.2.0 because it differs.
\<close>

theorem is_newer_version_semantic_or_inequality_witness:
  "is_newer_version parse_release ''1.3.0'' ''1.2.0'' \<and>
   \<not> is_newer_version parse_release ''1.2.0'' ''1.3.0'' \<and>
   is_newer_version parse_release ''latest'' ''1.2.0''"
  using is_newer_version_semantic_or_inequality [of parse_release "''1.3.0''" "''1.2.0''"]
        is_newer_version_semantic_or_inequality [of parse_release "''1.2.0''" "''1.3.0''"]
        is_newer_version_semantic_or_inequality [of parse_release "''latest''" "''1.2.0''"]
  by (simp add: parse_release_1_2_0 parse_release_1_3_0 parse_release_latest)

text \<open>
  C6. Comparing a version string against itself never yields "newer", whether the parser
  accepts the string or not.
\<close>

theorem is_newer_version_irreflexive:
  "\<not> is_newer_version parse v v"
  by (simp add: is_newer_version_def compare_parsed_def split: option.splits)

section \<open>Properties of the lookup\<close>

lemma from_github_scan: "from_github R ti qs = scan R qs (configured GitHub (source ti))"
  by (simp add: from_github_def configured_def split: sum.splits)

lemma from_npm_scan:
  "from_npm R ti qs = scan R qs (configured Npm (npm_package ti) @ configured GitHub (source ti))"
  by (simp add: from_npm_def from_github_scan configured_def split: sum.splits)

lemma from_pypi_scan:
  "from_pypi R ti qs = scan R qs (configured PyPI (pypi_package ti) @
      configured Npm (npm_package ti) @ configured GitHub (source ti))"
  by (simp add: from_pypi_def from_npm_scan configured_def[of PyPI] split: sum.splits)

lemma get_latest_version_scan:
  "get_latest_version R ti = scan R [] (configured_sources ti)"
  by (simp add: get_latest_version_def from_pypi_scan configured_sources_def configured_def[of Homebrew] split: sum.splits)

lemma scan_first_nonempty:
  "\<forall>p\<in>set pre. empty_result (resolve R p) \<and> fst p \<noteq> GitHub \<Longrightarrow> resolve R q = Inr v \<Longrightarrow> truthy v
   \<Longrightarrow> scan R qs (pre @ q # post) = (qs @ pre @ [q], Inr v)"
  by (induction pre arbitrary: qs) (auto simp: empty_result_def split: sum.splits)

lemma scan_all_empty_log:
  "\<forall>p\<in>set cs. empty_result (resolve R p) \<Longrightarrow> GitHub \<notin> fst ` set (butlast cs) \<Longrightarrow>
   fst (scan R qs cs) = qs @ cs"
  by (induction cs arbitrary: qs) (auto simp: empty_result_def split: sum.splits if_splits)

lemma scan_all_empty_result:
  "\<forall>p\<in>set cs. empty_result (resolve R p) \<Longrightarrow> empty_result (snd (scan R qs cs))"
proof (induction cs arbitrary: qs)
  case Nil
  then show ?case by (simp add: empty_result_def truthy_def)
next
  case (Cons q cs)
  then obtain v where v: "resolve R q = Inr v" "\<not> truthy v"
    by (auto simp: empty_result_def split: sum.splits)
  show ?case
  proof (cases "fst q = GitHub")
    case True
    with v show ?thesis by (simp add: empty_result_def)
  next
    case False
    with v Cons show ?thesis by simp
  qed
qed

lemma github_only_last: "GitHub \<notin> fst ` set (butlast (configured_sources ti))"
  by (auto simp: configured_sources_def configured_def butlast_append split: if_splits)

lemma prefix_no_github:
  "configured_sources ti = pre @ q # post \<Longrightarrow> p \<in> set pre \<Longrightarrow> fst p \<noteq> GitHub"
  using github_only_last[of ti] by (force simp: butlast_append image_iff split: if_splits)

lemma scan_prefix: "\<exists>rest. qs @ cs = fst (scan R qs cs) @ rest"
proof (induction cs arbitrary: qs)
  case Nil
  then show ?case by simp
next
  case (Cons q cs)
  from Cons[of "qs @ [q]"] show ?case
    by (auto split: sum.splits)
qed

lemma scan_truthy_decomp:
  "scan R qs cs = (l, Inr v) \<Longrightarrow> truthy v \<Longrightarrow>
   \<exists>pre q post. cs = pre @ q # post \<and> (\<forall>p\<in>set pre. empty_result (resolve R p)) \<and>
      resolve R q = Inr v \<and> l = qs @ pre @ [q]"
proof (induction cs arbitrary: qs)
  case Nil
  then show ?case by (simp add: truthy_def)
next
  case (Cons c cs)
  show ?case
  proof (cases "resolve R c")
    case (Inl e)
    with Cons.prems show ?thesis by simp
  next
    case (Inr w)
    show ?thesis
    proof (cases "truthy w \<or> fst c = GitHub")
      case True
      with Inr Cons.prems have "w = v" "l = qs @ [c]" by auto
      with Inr have "c # cs = [] @ c # cs \<and> (\<forall>p\<in>set []. empty_result (resolve R p)) \<and>
          resolve R c = Inr v \<and> l = qs @ [] @ [c]" by simp
      then show ?thesis by blast
    next
      case False
      with Inr Cons.prems have "scan R (qs @ [c]) cs = (l, Inr v)" by simp
      from Cons.IH[OF this Cons.prems(2)] obtain pre q post where
        d: "cs = pre @ q # post" "\<forall>p\<in>set pre. empty_result (resolve R p)"
           "resolve R q = Inr v" "l = (qs @ [c]) @ pre @ [q]" by blast
      from False Inr have "empty_result (resolve R c)" by (simp add: empty_result_def)
      with d have "c # cs = (c # pre) @ q # post \<and> (\<forall>p\<in>set (c # pre). empty_result (resolve R p)) \<and>
          resolve R q = Inr v \<and> l = qs @ (c # pre) @ [q]" by simp
      then show ?thesis by blast
    qed
  qed
qed

text \<open>
  C4. The sources are queried in the fixed order Homebrew, PyPI, npm, GitHub releases,
  each only if the tool configures it: the log of calls is always a prefix of the
  configured sources. When a configured source gives a non-empty answer and every
  configured source before it gave an empty one, the lookup returns that answer and the
  log ends with that source, so no later source is consulted. When every configured
  source gives an empty answer, all of them are queried and the result is empty
  (\<open>None\<close>, or the empty string when that is what the release lookup gave).
\<close>

theorem get_latest_version_priority_order:
  "(\<exists>rest. configured_sources ti = fst (get_latest_version R ti) @ rest) \<and>
   (\<forall>pre q post v.
      configured_sources ti = pre @ q # post \<and> (\<forall>p\<in>set pre. empty_result (resolve R p)) \<and>
      resolve R q = Inr v \<and> truthy v \<longrightarrow>
      get_latest_version R ti = (pre @ [q], Inr v)) \<and>
   ((\<forall>p\<in>set (configured_sources ti). empty_result (resolve R p)) \<longrightarrow>
      fst (get_latest_version R ti) = configured_sources ti \<and>
      empty_result (snd (get_latest_version R ti)))"
proof (intro conjI allI impI)
  show "\<exists>rest. configured_sources ti = fst (get_latest_version R ti) @ rest"
    using scan_prefix[of "[]" "configured_sources ti" R]
    by (simp add: get_latest_version_scan)
next
  fix pre q post v
  assume a: "configured_sources ti = pre @ q # post \<and> (\<forall>p\<in>set pre. empty_result (resolve R p)) \<and>
      resolve R q = Inr v \<and> truthy v"
  then have "\<forall>p\<in>set pre. empty_result (resolve R p) \<and> fst p \<noteq> GitHub"
    using prefix_no_github[of ti pre q post] by blast
  from scan_first_nonempty[OF this, of q v "[]" post] a
  show "get_latest_version R ti = (pre @ [q], Inr v)"
    by (simp add: get_latest_version_scan)
next
  assume a: "\<forall>p\<in>set (configured_sources ti). empty_result (resolve R p)"
  show "fst (get_latest_version R ti) = configured_sources ti"
    using scan_all_empty_log[OF a github_only_last, of "[]"]
    by (simp add: get_latest_version_scan)
  show "empty_result (snd (get_latest_version R ti))"
    using scan_all_empty_result[OF a, of "[]"]
    by (simp add: get_latest_version_scan)
qed

lemma demo_sources: "configured_sources demo_tool = [(Homebrew, ''toolx''), (PyPI, ''toolx'')]"
  by (simp add: configured_sources_def configured_def demo_tool_def truthy_def)

text \<open>
  Homebrew answers the empty string, so PyPI is asked and its 2.0.0 returned; with no
  answer from any source both are asked and the result is empty.
\<close>

theorem get_latest_version_priority_order_witness:
  "get_latest_version fallback_resolvers demo_tool =
     ([(Homebrew, ''toolx''), (PyPI, ''toolx'')], Inr (Some ''2.0.0'')) \<and>
   fst (get_latest_version silent_resolvers demo_tool) = [(Homebrew, ''toolx''), (PyPI, ''toolx'')] \<and>
   empty_result (snd (get_latest_version silent_resolvers demo_tool))"
proof -
  have a: "configured_sources demo_tool = [(Homebrew, ''toolx'')] @ (PyPI, ''toolx'') # [] \<and>
      (\<forall>p\<in>set [(Homebrew, ''toolx'')]. empty_result (resolve fallback_resolvers p)) \<and>
      resolve fallback_resolvers (PyPI, ''toolx'') = Inr (Some ''2.0.0'') \<and> truthy (Some ''2.0.0'')"
    by (simp add: demo_sources fallback_resolvers_def empty_result_def truthy_def)
  have b: "\<forall>p\<in>set (configured_sources demo_tool). empty_result (resolve silent_resolvers p)"
    by (simp add: demo_sources silent_resolvers_def empty_result_def truthy_def)
  from get_latest_version_priority_order[of demo_tool fallback_resolvers] a
  have "get_latest_version fallback_resolvers demo_tool =
     ([(Homebrew, ''toolx'')] @ [(PyPI, ''toolx'')], Inr (Some ''2.0.0''))" by blast
  moreover from get_latest_version_priority_order[of demo_tool silent_resolvers] b
  have "fst (get_latest_version silent_resolvers demo_tool) = configured_sources demo_tool \<and>
      empty_result (snd (get_latest_version silent_resolvers demo_tool))" by blast
  ultimately show ?thesis by (simp add: demo_sources)
qed

section \<open>Properties of update detection\<close>




lemma lookup_truthy_decomp:
  assumes "snd (get_latest_version R ti) = Inr (Some v)" and "v \<noteq> []"
  shows "\<exists>pre q post. configured_sources ti = pre @ q # post \<and>
      (\<forall>p\<in>set pre. empty_result (resolve R p)) \<and> resolve R q = Inr (Some v) \<and>
      fst (get_latest_version R ti) = pre @ [q]"
proof -
  from assms(1) have "scan R [] (configured_sources ti) =
      (fst (get_latest_version R ti), Inr (Some v))"
    by (simp add: get_latest_version_scan[symmetric] prod_eq_iff)
  from scan_truthy_decomp[OF this] assms(2) show ?thesis
    by (auto simp: truthy_def)
qed

lemma check_tool_Inr:
  "check_tool R parse now cat name ti ups = Inr (ti', ups') \<Longrightarrow>
   ti' = after_tool R parse now ti \<and> ups' = ups @ updates_of R parse cat name ti"
  by (auto simp: check_tool_def after_tool_def updates_of_def selected_def record_update_def truthy_def
           split: sum.splits if_splits option.splits)


lemma check_tools_Inr:
  "check_tools R parse now cat ts ups = Inr (ts', ups') \<Longrightarrow>
   ts' = after_tools R parse now ts \<and> ups' = ups @ updates_of_tools R parse cat ts"
proof (induction ts arbitrary: ups ts' ups')
  case Nil
  then show ?case by (simp add: after_tools_def updates_of_tools_def)
next
  case (Cons p ts)
  obtain n ti where p: "p = (n, ti)" by (cases p)
  from Cons.prems p obtain ti1 ups1 rest' where
    s: "check_tool R parse now cat n ti ups = Inr (ti1, ups1)"
       "check_tools R parse now cat ts ups1 = Inr (rest', ups')" "ts' = (n, ti1) # rest'"
    by (auto split: sum.splits prod.splits)
  from check_tool_Inr[OF s(1)] Cons.IH[OF s(2)] s(3) p show ?case
    by (simp add: after_tools_def updates_of_tools_def)
qed


lemma check_categories_Inr:
  "check_categories R parse now cfg ups = Inr (cfg', ups') \<Longrightarrow>
   cfg' = after_config R parse now cfg \<and> ups' = ups @ updates_of_config R parse cfg"
proof (induction cfg arbitrary: ups cfg' ups')
  case Nil
  then show ?case by (simp add: after_config_def updates_of_config_def)
next
  case (Cons p cfg)
  obtain c ts where p: "p = (c, ts)" by (cases p)
  from Cons.prems p obtain ts1 ups1 rest' where
    s: "check_tools R parse now c ts ups = Inr (ts1, ups1)"
       "check_categories R parse now cfg ups1 = Inr (rest', ups')" "cfg' = (c, ts1) # rest'"
    by (auto split: sum.splits prod.splits)
  from check_tools_Inr[OF s(1)] Cons.IH[OF s(2)] s(3) p show ?case
    by (simp add: after_config_def updates_of_config_def)
qed



lemma map_of_after_tools:
  "map_of (after_tools R parse now ts) n = map_option (after_tool R parse now) (map_of ts n)"
  by (induction ts) (auto simp: after_tools_def)

lemma lookup_after_config:
  "lookup_tool (after_config R parse now cfg) c n =
     map_option (after_tool R parse now) (lookup_tool cfg c n)"
  by (induction cfg) (auto simp: after_config_def lookup_tool_def map_of_after_tools[unfolded after_tools_def] after_tools_def split: option.splits)









lemma selected_Some:
  "selected R parse ti = Some v \<longleftrightarrow>
   (\<exists>stored. snd (get_latest_version R ti) = Inr (Some v) \<and> v \<noteq> [] \<and>
      current_version ti = Some stored \<and> is_newer_version parse v stored)"
  by (auto simp: selected_def truthy_def split: sum.splits option.splits)



text \<open>
  C1, as the code has it. For every tracked tool whose stored version a run changes,
  the new stored version is the answer of the first configured source, in the order
  Homebrew, PyPI, npm, GitHub releases, that gave a non-empty answer; the sources
  before it gave empty answers; and the sources queried for the tool are those up to
  and including it, so no source after it was consulted.
\<close>

theorem updated_version_is_first_nonempty:
  assumes "check_tool_updates R parse now cfg = Inr (cfg', ups)"
    and "lookup_tool cfg c n = Some ti" and "lookup_tool cfg' c n = Some ti'"
    and "current_version ti' \<noteq> current_version ti"
  shows "\<exists>pre q post v.
    configured_sources ti = pre @ q # post \<and>
    (\<forall>p\<in>set pre. empty_result (resolve R p)) \<and>
    resolve R q = Inr (Some v) \<and> v \<noteq> [] \<and>
    current_version ti' = Some v \<and>
    fst (get_latest_version R ti) = pre @ [q]"
proof -
  from assms(1) have "cfg' = after_config R parse now cfg"
    using check_categories_Inr[of R parse now cfg "[]" cfg' ups]
    by (simp add: check_tool_updates_def)
  with assms(2,3) have ti': "ti' = after_tool R parse now ti"
    by (simp add: lookup_after_config)
  with assms(4) obtain v where v: "selected R parse ti = Some v" "current_version ti' = Some v"
    by (auto simp: after_tool_def split: option.splits)
  then have g: "snd (get_latest_version R ti) = Inr (Some v)" "v \<noteq> []"
    by (auto simp: selected_Some)
  from lookup_truthy_decomp[OF g] v(2) g(2) show ?thesis by blast
qed

lemma demo_lookup:
  "get_latest_version demo_resolvers demo_tool = ([(Homebrew, ''toolx'')], Inr (Some ''1.3.0''))"
  by (simp add: get_latest_version_def demo_resolvers_def demo_tool_def truthy_def)

lemma demo_fields:
  "current_version demo_tool = Some ''1.2.0''" "description demo_tool = Some ''demo''"
  by (simp_all add: demo_tool_def)

lemma three_source_fields:
  "current_version three_source_tool = Some ''1.2.0''"
  "description three_source_tool = Some ''demo''"
  by (simp_all add: three_source_tool_def demo_tool_def)


lemma demo_newer: "is_newer_version parse_release ''1.3.0'' ''1.2.0''"
  by (simp add: is_newer_version_def compare_parsed_def parse_release_1_2_0 parse_release_1_3_0)

lemma demo_run:
  "check_tool_updates demo_resolvers parse_release ''2025-01-01'' demo_config =
     Inr ([(''ai_frameworks'',
            [(''ToolX'', demo_tool\<lparr>current_version := Some ''1.3.0'',
                                   last_updated := Some ''2025-01-01''\<rparr>)])],
          [\<lparr>u_tool = ''ToolX'', u_category = ''ai_frameworks'', u_old_version = ''1.2.0'',
            u_new_version = ''1.3.0'', u_description = ''demo''\<rparr>])"
  using demo_newer
  by (simp add: check_tool_updates_def demo_config_def check_tool_def demo_lookup truthy_def
      record_update_def demo_fields)





lemma three_sources:
  "configured_sources three_source_tool =
     [(Homebrew, ''toolx''), (PyPI, ''toolx''), (Npm, ''toolx'')]"
  by (simp add: configured_sources_def configured_def three_source_tool_def demo_tool_def truthy_def)

lemma three_source_lookup:
  "get_latest_version fallback_resolvers three_source_tool =
     ([(Homebrew, ''toolx''), (PyPI, ''toolx'')], Inr (Some ''2.0.0''))"
  by (simp add: get_latest_version_def from_pypi_def fallback_resolvers_def three_source_tool_def
      demo_tool_def truthy_def)

lemma newer_2_0_0: "is_newer_version parse_release ''2.0.0'' ''1.2.0''"
  by (simp add: is_newer_version_def compare_parsed_def parse_release_1_2_0 parse_release_2_0_0)

lemma three_source_run:
  "check_tool_updates fallback_resolvers parse_release ''2025-01-01'' three_source_config =
     Inr ([(''ai_frameworks'',
            [(''ToolX'', three_source_tool\<lparr>current_version := Some ''2.0.0'',
                                           last_updated := Some ''2025-01-01''\<rparr>)])],
          [\<lparr>u_tool = ''ToolX'', u_category = ''ai_frameworks'', u_old_version = ''1.2.0'',
            u_new_version = ''2.0.0'', u_description = ''demo''\<rparr>])"
  using newer_2_0_0
  by (simp add: check_tool_updates_def three_source_config_def check_tool_def three_source_lookup
      truthy_def record_update_def three_source_fields)

text \<open>
  A tool with three sources: Homebrew answers with nothing, PyPI with 2.0.0. The lookup
  falls through to PyPI, and npm is not queried.
\<close>

theorem updated_version_is_first_nonempty_witness:
  "\<exists>pre q post.
     configured_sources three_source_tool = pre @ q # post \<and>
     pre = [(Homebrew, ''toolx'')] \<and> q = (PyPI, ''toolx'') \<and> post = [(Npm, ''toolx'')] \<and>
     empty_result (resolve fallback_resolvers (Homebrew, ''toolx'')) \<and>
     resolve fallback_resolvers q = Inr (Some ''2.0.0'') \<and>
     fst (get_latest_version fallback_resolvers three_source_tool) = pre @ [q]"
proof -
  let ?ti' = "three_source_tool\<lparr>current_version := Some ''2.0.0'',
                                  last_updated := Some ''2025-01-01''\<rparr>"
  have l0: "lookup_tool three_source_config ''ai_frameworks'' ''ToolX'' = Some three_source_tool"
    by (simp add: lookup_tool_def three_source_config_def)
  have l: "lookup_tool [(''ai_frameworks'', [(''ToolX'', ?ti')])] ''ai_frameworks'' ''ToolX'' = Some ?ti'"
    by (simp add: lookup_tool_def)
  have c: "current_version ?ti' \<noteq> current_version three_source_tool"
    by (simp add: three_source_tool_def demo_tool_def)
  from updated_version_is_first_nonempty[OF three_source_run l0 l c]
  obtain pre q post v where r:
    "configured_sources three_source_tool = pre @ q # post"
    "\<forall>p\<in>set pre. empty_result (resolve fallback_resolvers p)"
    "resolve fallback_resolvers q = Inr (Some v)" "current_version ?ti' = Some v"
    "fst (get_latest_version fallback_resolvers three_source_tool) = pre @ [q]"
    by blast
  from r(5) have pq: "pre = [(Homebrew, ''toolx'')]" "q = (PyPI, ''toolx'')"
    by (simp_all add: three_source_lookup append_eq_Cons_conv Cons_eq_append_conv)
  with r(1) have post: "post = [(Npm, ''toolx'')]" by (simp add: three_sources)
  from r(4) have v: "v = ''2.0.0''" by simp
  from r pq post v show ?thesis by simp
qed

text \<open>
  C1, as the claim states it, fails: Homebrew gives 1.3.0 and PyPI gives 2.0.0 for the
  same tool. The run stores 1.3.0, although the answer of PyPI is a newer version: the
  stored version is not the maximum over the sources.
\<close>

theorem updated_version_not_maximum:
  "check_tool_updates demo_resolvers parse_release ''2025-01-01'' demo_config =
     Inr ([(''ai_frameworks'',
            [(''ToolX'', demo_tool\<lparr>current_version := Some ''1.3.0'',
                                   last_updated := Some ''2025-01-01''\<rparr>)])],
          [\<lparr>u_tool = ''ToolX'', u_category = ''ai_frameworks'', u_old_version = ''1.2.0'',
            u_new_version = ''1.3.0'', u_description = ''demo''\<rparr>]) \<and>
   resolve demo_resolvers (PyPI, ''toolx'') = Inr (Some ''2.0.0'') \<and>
   is_newer_version parse_release ''2.0.0'' ''1.3.0''"
  using demo_run
  by (simp add: demo_resolvers_def is_newer_version_def compare_parsed_def parse_release_2_0_0 parse_release_1_3_0)





text \<open>
  A run in which a resolver raises records nothing for the tools behind it: with no
  \<open>brew\<close> program the lookup of the first tool raises, the run ends there, and the
  second tool stays at 1.2.0 although PyPI has 1.3.0 for it.
\<close>

lemma check_tool_updates_stops_at_raise:
  "check_tool_updates no_brew_resolvers parse_release ''2025-01-01'' two_tool_config =
     Inl FileNotFoundError \<and>
   resolve no_brew_resolvers (PyPI, ''toolb'') = Inr (Some ''1.3.0'') \<and>
   is_newer_version parse_release ''1.3.0'' ''1.2.0''"
  using demo_newer
  by (simp add: check_tool_updates_def two_tool_config_def check_tool_def get_latest_version_def
      no_brew_resolvers_def demo_tool_def truthy_def)

section \<open>Properties of the resolvers\<close>

lemma starts_with_append: "starts_with p (p @ s)"
  by (induction p) auto

lemma starts_with_decomp: "starts_with p s \<Longrightarrow> s = p @ drop (length p) s"
  by (induction p s rule: starts_with.induct) auto

lemma takeWhile_not_slash_append:
  "CHR ''/'' \<notin> set a \<Longrightarrow> takeWhile not_slash (a @ CHR ''/'' # b) = a"
  by (induction a) (auto simp: not_slash_def)

lemma dropWhile_not_slash_append:
  "CHR ''/'' \<notin> set a \<Longrightarrow> dropWhile not_slash (a @ CHR ''/'' # b) = CHR ''/'' # b"
  by (induction a) (auto simp: not_slash_def)

lemma takeWhile_not_slash_nonempty:
  "a \<noteq> [] \<Longrightarrow> CHR ''/'' \<notin> set a \<Longrightarrow> takeWhile not_slash (a @ b) \<noteq> []"
  by (cases a) (auto simp: not_slash_def)

lemma match_repo_at_path:
  assumes "owner \<noteq> []" "CHR ''/'' \<notin> set owner" "repo \<noteq> []" "CHR ''/'' \<notin> set repo"
  shows "match_repo_at (''github.com/'' @ owner @ ''/'' @ repo @ rest) \<noteq> None"
proof -
  have s: "starts_with ''github.com/'' (''github.com/'' @ owner @ ''/'' @ repo @ rest)"
    by (rule starts_with_append)
  have d: "drop (length ''github.com/'') (''github.com/'' @ owner @ ''/'' @ repo @ rest) =
      owner @ CHR ''/'' # (repo @ rest)" by simp
  have t: "takeWhile not_slash (owner @ CHR ''/'' # (repo @ rest)) = owner"
    using assms(2) by (rule takeWhile_not_slash_append)
  have r: "dropWhile not_slash (owner @ CHR ''/'' # (repo @ rest)) = CHR ''/'' # (repo @ rest)"
    using assms(2) by (rule dropWhile_not_slash_append)
  have n: "takeWhile not_slash (repo @ rest) \<noteq> []"
    using assms(3,4) by (rule takeWhile_not_slash_nonempty)
  show ?thesis
    unfolding match_repo_at_def Let_def d t r
    using s assms(1) n by simp
qed

lemma search_repo_append:
  "match_repo_at s \<noteq> None \<Longrightarrow> search_repo (pre @ s) \<noteq> None"
proof (induction pre)
  case Nil
  then show ?case by (cases s) (auto simp: match_repo_at_def split: option.splits)
next
  case (Cons c pre)
  then show ?case by (auto split: option.splits)
qed

lemma match_repo_at_Some:
  assumes "match_repo_at s = Some (owner, repo)"
  shows "\<exists>rest. s = ''github.com/'' @ owner @ ''/'' @ repo @ rest \<and>
     owner \<noteq> [] \<and> CHR ''/'' \<notin> set owner \<and> repo \<noteq> [] \<and> CHR ''/'' \<notin> set repo"
proof -
  let ?r = "drop (length ''github.com/'') s"
  let ?r' = "dropWhile not_slash ?r"
  from assms have sw: "starts_with ''github.com/'' s"
    by (auto simp: match_repo_at_def split: if_splits)
  from assms sw have o: "owner = takeWhile not_slash ?r" "owner \<noteq> []" "?r' \<noteq> []"
    and rp: "repo = takeWhile not_slash (tl ?r')" "repo \<noteq> []"
    by (auto simp: match_repo_at_def Let_def split: if_splits)
  from o(3) have "\<not> not_slash (hd ?r')" by (rule hd_dropWhile)
  then have "hd ?r' = CHR ''/''" by (simp add: not_slash_def)
  with o(3) have r': "?r' = CHR ''/'' # tl ?r'" by (cases ?r') auto
  have "?r = owner @ ?r'" unfolding o(1) by simp
  also have "\<dots> = owner @ CHR ''/'' # tl ?r'" using r' by simp
  also have "tl ?r' = repo @ dropWhile not_slash (tl ?r')" unfolding rp(1) by simp
  finally have "?r = owner @ ''/'' @ repo @ dropWhile not_slash (tl ?r')" by simp
  with starts_with_decomp[OF sw]
  have "s = ''github.com/'' @ owner @ ''/'' @ repo @ dropWhile not_slash (tl ?r')" by simp
  moreover have "CHR ''/'' \<notin> set owner" unfolding o(1)
    by (auto dest: set_takeWhileD simp: not_slash_def)
  moreover have "CHR ''/'' \<notin> set repo" unfolding rp(1)
    by (auto dest: set_takeWhileD simp: not_slash_def)
  ultimately show ?thesis using o(2) rp(2) by blast
qed

lemma search_repo_Some:
  "search_repo url = Some (owner, repo) \<Longrightarrow>
   \<exists>pre rest. url = pre @ ''github.com/'' @ owner @ ''/'' @ repo @ rest \<and>
     owner \<noteq> [] \<and> CHR ''/'' \<notin> set owner \<and> repo \<noteq> [] \<and> CHR ''/'' \<notin> set repo"
proof (induction url)
  case Nil
  then show ?case by simp
next
  case (Cons c cs)
  show ?case
  proof (cases "match_repo_at (c # cs)")
    case None
    with Cons.prems have "search_repo cs = Some (owner, repo)" by simp
    from Cons.IH[OF this] obtain pre rest where
      "cs = pre @ ''github.com/'' @ owner @ ''/'' @ repo @ rest \<and>
       owner \<noteq> [] \<and> CHR ''/'' \<notin> set owner \<and> repo \<noteq> [] \<and> CHR ''/'' \<notin> set repo" by blast
    then have "c # cs = (c # pre) @ ''github.com/'' @ owner @ ''/'' @ repo @ rest \<and>
       owner \<noteq> [] \<and> CHR ''/'' \<notin> set owner \<and> repo \<noteq> [] \<and> CHR ''/'' \<notin> set repo" by simp
    then show ?thesis by blast
  next
    case (Some m)
    with Cons.prems have "match_repo_at (c # cs) = Some (owner, repo)" by simp
    from match_repo_at_Some[OF this] obtain rest where
      "c # cs = [] @ ''github.com/'' @ owner @ ''/'' @ repo @ rest \<and>
       owner \<noteq> [] \<and> CHR ''/'' \<notin> set owner \<and> repo \<noteq> [] \<and> CHR ''/'' \<notin> set repo" by auto
    then show ?thesis by blast
  qed
qed

lemma search_repo_None_iff: "search_repo url = None \<longleftrightarrow> \<not> has_repo_path url"
proof
  assume n: "search_repo url = None"
  show "\<not> has_repo_path url"
  proof
    assume "has_repo_path url"
    then obtain pre owner repo rest where
      u: "url = pre @ ''github.com/'' @ owner @ ''/'' @ repo @ rest"
      and c: "owner \<noteq> []" "CHR ''/'' \<notin> set owner" "repo \<noteq> []" "CHR ''/'' \<notin> set repo"
      unfolding has_repo_path_def by blast
    from search_repo_append[OF match_repo_at_path[OF c], of pre rest] u n
    show False by simp
  qed
next
  assume h: "\<not> has_repo_path url"
  show "search_repo url = None"
  proof (cases "search_repo url")
    case None
    then show ?thesis .
  next
    case (Some m)
    obtain owner repo where "m = (owner, repo)" by (cases m)
    with Some search_repo_Some[of url owner repo] h show ?thesis
      unfolding has_repo_path_def by blast
  qed
qed

lemma lstrip_decomp:
  "\<exists>n. s = replicate n ch @ lstrip ch s \<and> \<not> starts_with [ch] (lstrip ch s)"
proof -
  let ?n = "length (takeWhile (\<lambda>c. c = ch) s)"
  have t: "takeWhile (\<lambda>c. c = ch) s = replicate ?n ch"
    by (induction s) auto
  have "s = takeWhile (\<lambda>c. c = ch) s @ dropWhile (\<lambda>c. c = ch) s" by simp
  then have a: "s = replicate ?n ch @ lstrip ch s" using t by (simp add: lstrip_def)
  have "lstrip ch s \<noteq> [] \<Longrightarrow> hd (lstrip ch s) \<noteq> ch"
    unfolding lstrip_def using hd_dropWhile[of "\<lambda>c. c = ch" s] by simp
  then have b: "\<not> starts_with [ch] (lstrip ch s)"
    by (cases "lstrip ch s") auto
  from a b show ?thesis by blast
qed

lemma search_demo_repo_url: "search_repo demo_repo_url = Some (''acme'', ''toolx'')"
  by (simp add: demo_repo_url_def match_repo_at_def not_slash_def)

lemma search_gitlab: "search_repo ''https://gitlab.com/acme/toolx'' = None"
  by (simp add: match_repo_at_def not_slash_def)

text \<open>
  C10. When the repository URL matches and the release answer is a dict whose
  \<open>tag_name\<close> is a string, the lookup returns a string that is the tag without its
  leading \<open>v\<close>s, however many there are: the tag is some number of \<open>v\<close>s followed by
  the result, and the result does not start with \<open>v\<close>. When the URL has no owner and
  repository path under \<open>github.com\<close>, the lookup returns nothing.
\<close>

theorem check_github_releases_strips_all_v:
  "(\<forall>owner repo kvs tag.
      search_repo repo_url = Some (owner, repo) \<and>
      net (releases_url owner repo) = Body (JObj kvs) \<and>
      map_of kvs ''tag_name'' = Some (JStr tag) \<longrightarrow>
      (\<exists>n version. check_github_releases net repo_url = Inr (JStr version) \<and>
         tag = replicate n CHR ''v'' @ version \<and> \<not> starts_with ''v'' version)) \<and>
   (\<not> has_repo_path repo_url \<longrightarrow> check_github_releases net repo_url = Inr JNull)"
proof (intro conjI allI impI)
  fix owner repo kvs tag
  assume a: "search_repo repo_url = Some (owner, repo) \<and>
      net (releases_url owner repo) = Body (JObj kvs) \<and>
      map_of kvs ''tag_name'' = Some (JStr tag)"
  then have k: "''tag_name'' \<in> fst ` set kvs" "kvs \<noteq> []"
    by (force dest: map_of_SomeD simp: image_iff)+
  with a have "check_github_releases net repo_url = Inr (JStr (lstrip CHR ''v'' tag))"
    by (simp add: check_github_releases_def http_get_def)
  with lstrip_decomp[of tag "CHR ''v''"]
  show "\<exists>n version. check_github_releases net repo_url = Inr (JStr version) \<and>
         tag = replicate n CHR ''v'' @ version \<and> \<not> starts_with ''v'' version"
    by blast
next
  assume "\<not> has_repo_path repo_url"
  then have "search_repo repo_url = None" by (simp add: search_repo_None_iff)
  then show "check_github_releases net repo_url = Inr JNull"
    by (simp add: check_github_releases_def)
qed

text \<open>
  The tag \<open>vv2.0\<close> of a repository on github.com, and a URL on another host.
\<close>

theorem check_github_releases_strips_all_v_witness:
  "(\<exists>n version. check_github_releases (release_net ''vv2.0'') demo_repo_url = Inr (JStr version) \<and>
      ''vv2.0'' = replicate n CHR ''v'' @ version \<and> \<not> starts_with ''v'' version) \<and>
   check_github_releases (release_net ''vv2.0'') ''https://gitlab.com/acme/toolx'' = Inr JNull"
proof -
  have a: "search_repo demo_repo_url = Some (''acme'', ''toolx'') \<and>
      release_net ''vv2.0'' (releases_url ''acme'' ''toolx'') = Body (JObj [(''tag_name'', JStr ''vv2.0'')]) \<and>
      map_of [(''tag_name'', JStr ''vv2.0'')] ''tag_name'' = Some (JStr ''vv2.0'')"
    by (simp add: search_demo_repo_url releases_url_def release_net_def)
  have b: "\<not> has_repo_path ''https://gitlab.com/acme/toolx''"
    using search_gitlab search_repo_None_iff[of "''https://gitlab.com/acme/toolx''"] by blast
  from check_github_releases_strips_all_v[of demo_repo_url "release_net ''vv2.0''"] a
  have "\<exists>n version. check_github_releases (release_net ''vv2.0'') demo_repo_url = Inr (JStr version) \<and>
      ''vv2.0'' = replicate n CHR ''v'' @ version \<and> \<not> starts_with ''v'' version" by blast
  moreover from check_github_releases_strips_all_v[of "''https://gitlab.com/acme/toolx''" "release_net ''vv2.0''"] b
  have "check_github_releases (release_net ''vv2.0'') ''https://gitlab.com/acme/toolx'' = Inr JNull" by blast
  ultimately show ?thesis by blast
qed

text \<open>The tags \<open>v1.2.0\<close> and \<open>vv2.0\<close> give 1.2.0 and 2.0.\<close>

lemma check_github_releases_v1_2_0:
  "check_github_releases (release_net ''v1.2.0'') demo_repo_url = Inr (JStr ''1.2.0'')"
  by (simp add: check_github_releases_def search_demo_repo_url releases_url_def release_net_def
      http_get_def lstrip_def)

lemma check_github_releases_vv2_0:
  "check_github_releases (release_net ''vv2.0'') demo_repo_url = Inr (JStr ''2.0'')"
  by (simp add: check_github_releases_def search_demo_repo_url releases_url_def release_net_def
      http_get_def lstrip_def)

text \<open>
  The faults the resolvers catch: every fault of the request (connection, timeout,
  error status, a body that is not JSON) gives an empty result in the three HTTP
  resolvers, and so do a timeout, a non-zero exit and output that is not JSON in the
  Homebrew query.
\<close>

lemma http_get_fault: "is_fault (net url) \<Longrightarrow> http_get net url = JNull"
  by (simp add: http_get_def is_fault_def split: http_outcome.splits)

lemma check_pypi_version_fault:
  "is_fault (net (''https://pypi.org/pypi/'' @ p @ ''/json'')) \<Longrightarrow> check_pypi_version net p = Inr JNull"
  by (simp add: check_pypi_version_def http_get_fault)

lemma check_npm_version_fault:
  "is_fault (net (''https://registry.npmjs.org/'' @ p)) \<Longrightarrow> check_npm_version net p = Inr JNull"
  by (simp add: check_npm_version_def http_get_fault)

lemma check_github_releases_fault:
  "\<forall>url. is_fault (net url) \<Longrightarrow> check_github_releases net repo_url = Inr JNull"
  by (simp add: check_github_releases_def http_get_fault split: option.splits)

lemma check_homebrew_version_caught:
  "run_brew f = BrewTimeout \<or> (\<exists>rc out. run_brew f = BrewExit rc out \<and> (rc \<noteq> 0 \<or> json_loads out = None))
   \<Longrightarrow> check_homebrew_version run_brew json_loads f = Inr JNull"
  by (auto simp: check_homebrew_version_def)

text \<open>
  C7. Every resolver is to return an empty result, and not to raise, on every
  transport, parse or timeout fault of its lookup. The code does not keep this. The
  Homebrew query raises \<open>FileNotFoundError\<close> when no \<open>brew\<close> program can be started:
  its handler names \<open>TimeoutExpired\<close>, \<open>CalledProcessError\<close> and \<open>JSONDecodeError\<close>
  only. The three HTTP resolvers raise when the decoded answer has the outer key but
  not the shape they subscript: \<open>KeyError\<close> for an \<open>info\<close> without \<open>version\<close> and
  for \<open>dist-tags\<close> without \<open>latest\<close>, \<open>AttributeError\<close> for a \<open>tag_name\<close> that is
  null.
\<close>

theorem resolver_fault_escapes:
  "check_homebrew_version (\<lambda>formula. BrewNotFound) (\<lambda>out. None) ''node'' = Inl FileNotFoundError \<and>
   check_pypi_version (\<lambda>url. Body (JObj [(''info'', JObj [])])) ''langchain'' = Inl KeyError \<and>
   check_npm_version (\<lambda>url. Body (JObj [(''dist-tags'', JObj [])])) ''langchain'' = Inl KeyError \<and>
   check_github_releases (\<lambda>url. Body (JObj [(''tag_name'', JNull)])) demo_repo_url = Inl AttributeError"
  by (simp add: check_homebrew_version_def check_pypi_version_def check_npm_version_def
      check_github_releases_def search_demo_repo_url http_get_def)

section \<open>Properties of the trend scanner\<close>












lemma search_topic_fault:
  "is_fault (net (search_url today topic)) \<Longrightarrow> search_topic net today topic acc = acc"
  by (simp add: search_topic_def http_get_def is_fault_def split: http_outcome.splits)



section \<open>Properties of the report generator\<close>

lemma join_lines_Cons: "ls \<noteq> [] \<Longrightarrow> join_lines (l # ls) = l @ [nl] @ join_lines ls"
  by (cases ls) auto

lemma join_lines_append:
  "join_lines (l # ls) = l @ concat (map (\<lambda>x. nl # x) ls)"
  by (induction ls arbitrary: l) (auto simp: join_lines_Cons)

lemma length_join_lines_mono: "length l \<le> length (join_lines (l # ls))"
  by (simp add: join_lines_append)

lemma generate_markdown_report_no_sections:
  "generate_markdown_report stamp title [] =
     ''# '' @ title @ [nl] @ ''*Generated: '' @ stamp @ ''*'' @ [nl]"
  by (simp add: generate_markdown_report_def report_head_def)

lemma generate_markdown_report_sections:
  "generate_markdown_report stamp title sections =
     generate_markdown_report stamp title [] @
     concat (map (\<lambda>l. nl # l) (concat (map section_lines sections)))"
  by (simp add: generate_markdown_report_def report_head_def join_lines_append)

text \<open>
  C8, as the code has it. For the empty list of sections the report is the title line
  and the timestamp line, each ended by a line break after joining. Every section, with
  or without items, adds its lines (heading, content, one bullet per item, an empty
  line), each behind a line break; so the report is the title and timestamp alone if
  and only if there is no section at all.
\<close>

theorem report_head_only_iff_no_sections:
  "generate_markdown_report stamp title [] =
     ''# '' @ title @ [nl] @ ''*Generated: '' @ stamp @ ''*'' @ [nl] \<and>
   generate_markdown_report stamp title (sections @ [section]) =
     generate_markdown_report stamp title sections @
       concat (map (\<lambda>l. nl # l) (section_lines section)) \<and>
   (generate_markdown_report stamp title sections = generate_markdown_report stamp title [])
     = (sections = [])"
proof (intro conjI)
  show "generate_markdown_report stamp title [] =
     ''# '' @ title @ [nl] @ ''*Generated: '' @ stamp @ ''*'' @ [nl]"
    by (rule generate_markdown_report_no_sections)
  show "generate_markdown_report stamp title (sections @ [section]) =
     generate_markdown_report stamp title sections @
       concat (map (\<lambda>l. nl # l) (section_lines section))"
    by (simp add: generate_markdown_report_sections[of stamp title "sections @ [section]"]
        generate_markdown_report_sections[of stamp title sections])
  show "(generate_markdown_report stamp title sections = generate_markdown_report stamp title [])
     = (sections = [])"
  proof
    assume e: "generate_markdown_report stamp title sections = generate_markdown_report stamp title []"
    show "sections = []"
    proof (cases sections)
      case Nil
      then show ?thesis .
    next
      case (Cons s ss)
      then have "concat (map (\<lambda>l. nl # l) (concat (map section_lines sections))) \<noteq> []"
        by (simp add: section_lines_def)
      with e generate_markdown_report_sections[of stamp title sections] show ?thesis by simp
    qed
  next
    assume "sections = []"
    then show "generate_markdown_report stamp title sections = generate_markdown_report stamp title []"
      by simp
  qed
qed

text \<open>The report of no sections.\<close>

theorem report_head_only_iff_no_sections_witness:
  "generate_markdown_report ''2025-01-01 09:00:00'' ''Update Summary'' [] =
     ''# Update Summary'' @ [nl] @ ''*Generated: 2025-01-01 09:00:00*'' @ [nl]"
  using report_head_only_iff_no_sections [of "''2025-01-01 09:00:00''" "''Update Summary''" "[]" empty_section]
  by simp

text \<open>
  C8, as the claim states it, fails: a section whose list of items is empty carries no
  items, and the report still holds its heading and an empty line after the timestamp.
\<close>

theorem report_of_itemless_section_has_heading:
  "\<not> carries_items empty_section \<and>
   generate_markdown_report ''2025-01-01 09:00:00'' ''Update Summary'' [empty_section] =
     ''# Update Summary'' @ [nl] @ ''*Generated: 2025-01-01 09:00:00*'' @ [nl] @ [nl] @
     ''## Tool Updates Found (0)'' @ [nl] \<and>
   generate_markdown_report ''2025-01-01 09:00:00'' ''Update Summary'' [empty_section] \<noteq>
     ''# Update Summary'' @ [nl] @ ''*Generated: 2025-01-01 09:00:00*'' @ [nl]"
  by (simp add: carries_items_def empty_section_def generate_markdown_report_def report_head_def
      section_lines_def)

section \<open>Properties of the README rewrite\<close>


















lemma group_ref_length: "length (group_ref ''1'') = 5" "length (group_ref ''3'') = 5"
  by (simp_all add: group_ref_def cps_def)

lemma compile_cell_template:
  assumes "92 \<notin> set m"
  shows "compile_template lib 3 (group_ref ''1'' @ m @ group_ref ''3'') =
     Inr (\<lambda>groups. groups ! 0 @ m @ groups ! 2)"
proof -
  let ?t = "group_ref ''1'' @ m @ group_ref ''3''"
  have c: "cell_text ?t = m" by (simp add: cell_text_def group_ref_length)
  have i: "is_cell_template ?t"
    unfolding is_cell_template_def c using assms by (simp add: group_ref_length)
  have b: "92 \<in> set ?t" by (simp add: group_ref_def)
  show ?thesis unfolding compile_template_def using b i c by simp
qed

lemma compile_plain_template: "92 \<notin> set t \<Longrightarrow> compile_template lib n t = Inr (\<lambda>groups. t)"
  by (simp add: compile_template_def)










lemma toolx_update_fields:
  "u_tool (toolx_update c) = ''ToolX''" "u_category (toolx_update c) = c"
  "u_new_version (toolx_update c) = ''1.1.0''"
  by (simp_all add: toolx_update_def)

lemma ci_match_ascii:
  "p < 128 \<Longrightarrow> c < 128 \<Longrightarrow> ci_match uni p c = (ascii_lower p = ascii_lower c)"
  by (simp add: ci_match_def)


lemma toolx_template:
  "compile_template lib 3
     (group_ref ''1'' @ version_cell ''1.1.0'' ''2025-01-01'' @ group_ref ''3'') =
   Inr (\<lambda>groups. groups ! 0 @ version_cell ''1.1.0'' ''2025-01-01'' @ groups ! 2)"
  by (rule compile_cell_template) (simp add: version_cell_def cps_def)

lemma marker_template:
  "compile_template lib 0 (cps ''Generated '' @ cps ''January 01, 2025'' @ [32, 8211]) =
   Inr (\<lambda>groups. cps ''Generated '' @ cps ''January 01, 2025'' @ [32, 8211])"
  by (rule compile_plain_template) (simp add: cps_def)


text \<open>
  The rewrite of the generation marker comes last and runs over the rows too: in a row
  that holds the word \<open>Generated\<close> before the cell and an en dash behind it, the new cell
  is taken away with the marker.
\<close>

lemma update_readme_marker_takes_cell:
  "\<forall>uni lib.
     update_readme uni lib ''2025-01-01'' ''January 01, 2025'' [toolx_update ''ai_frameworks''] None
       (Some (cps ''|Generated|**ToolX**|1.0.0|'' @ [8211, 124])) =
     Inr (Some (cps ''|Generated January 01, 2025 '' @ [8211, 124]))"
  by (simp add: update_readme_def toolx_update_fields toolx_template update_marker_def
      marker_template)
     (simp add: row_key_def match_cell_at_def match_marker_at_def marker_def
      ci_match_ascii ascii_lower_def not_pipe_def version_cell_def cps_def)

text \<open>
  When the document has a trending section already, the section is replaced up to the
  next heading and the rows before it stay.
\<close>

lemma add_trending_section_replaces_old_section:
  "\<forall>lib.
     add_trending_section lib
       (cps ''|a|'' @ [10, 10] @ cps ''## Trending Tools to Investigate'' @ [10] @ cps ''|old|'' @
        [10, 10] @ cps ''## Next'')
       (cps ''## Trending Tools to Investigate'' @ [10] @ cps ''|new|'') =
     Inr (cps ''|a|'' @ [10, 10] @ cps ''## Trending Tools to Investigate'' @ [10] @ cps ''|new|'' @
          [10, 10] @ cps ''## Next'')"
  by (simp add: add_trending_section_def compile_template_def section_header_def stop_here_def
      cps_def)

end
